theory Spec2Isabelle
  imports Complex_Main "HOL-Library.AList"
begin

section \<open>Values from the wire\<close>

text \<open>
  A Python number as the server compares it.  JSON integers and finite floats are the
  reals they denote (the server only compares them, and Python compares an int with a
  float exactly); \<open>json.loads\<close> also accepts the literals \<open>Infinity\<close>, \<open>-Infinity\<close>
  and \<open>NaN\<close>.
\<close>

datatype pynum = Fin real | PosInf | NegInf | NaN

text \<open>Python's \<open>a < b\<close> on numbers: every comparison with \<open>NaN\<close> is false.\<close>

fun py_lt :: "pynum \<Rightarrow> pynum \<Rightarrow> bool" where
  "py_lt NaN _ = False"
| "py_lt _ NaN = False"
| "py_lt (Fin a) (Fin b) = (a < b)"
| "py_lt (Fin a) PosInf = True"
| "py_lt (Fin a) NegInf = False"
| "py_lt PosInf _ = False"
| "py_lt NegInf NegInf = False"
| "py_lt NegInf _ = True"

text \<open>
  The builtins \<open>min(a, b)\<close> and \<open>max(a, b)\<close>: the first argument is kept unless the
  second is strictly smaller (strictly greater).
\<close>

definition py_min :: "pynum \<Rightarrow> pynum \<Rightarrow> pynum" where
  "py_min a b = (if py_lt b a then b else a)"

definition py_max :: "pynum \<Rightarrow> pynum \<Rightarrow> pynum" where
  "py_max a b = (if py_lt a b then b else a)"

text \<open>
  What \<open>json.loads\<close> returns.  An object is the dict in insertion order, as an
  association list.
\<close>

datatype json =
    JNull
  | JBool bool
  | JNum pynum
  | JStr string
  | JArr "json list"
  | JObj "(string \<times> json) list"

text \<open>A text frame: \<open>json.loads\<close> either raises \<open>JSONDecodeError\<close> or returns a value.\<close>

datatype frame = Invalid_JSON | Parsed json

datatype exn = AttributeError | TypeError | KeyError | ConnectionClosed | SinkError

text \<open>\<open>d.get(key, default)\<close> on a dict.\<close>

definition dict_get :: "('k \<times> 'v) list \<Rightarrow> 'k \<Rightarrow> 'v \<Rightarrow> 'v" where
  "dict_get d k dflt = (case map_of d k of None \<Rightarrow> dflt | Some v \<Rightarrow> v)"

text \<open>Truth value of a JSON value in \<open>if pressed:\<close> and \<open>if keys:\<close>.\<close>

fun truthy :: "json \<Rightarrow> bool" where
  "truthy JNull = False"
| "truthy (JBool b) = b"
| "truthy (JNum (Fin r)) = (r \<noteq> 0)"
| "truthy (JNum _) = True"
| "truthy (JStr s) = (s \<noteq> [])"
| "truthy (JArr xs) = (xs \<noteq> [])"
| "truthy (JObj kvs) = (kvs \<noteq> [])"

text \<open>
  The number a value stands for when it is compared with a float: \<open>True\<close> and
  \<open>False\<close> are 1 and 0, anything that is not a number makes the comparison raise
  \<open>TypeError\<close>.
\<close>

fun as_number :: "json \<Rightarrow> pynum option" where
  "as_number (JNum n) = Some n"
| "as_number (JBool b) = Some (Fin (if b then 1 else 0))"
| "as_number _ = None"

text \<open>\<open>max(lo, min(hi, v))\<close>, raising \<open>TypeError\<close> where \<open>min\<close> cannot compare.\<close>

definition clamp :: "real \<Rightarrow> real \<Rightarrow> json \<Rightarrow> exn + pynum" where
  "clamp lo hi v =
     (case as_number v of
        None \<Rightarrow> Inl TypeError
      | Some n \<Rightarrow> Inr (py_max (Fin lo) (py_min (Fin hi) n)))"

section \<open>controller.py\<close>

text \<open>
  The \<open>vgamepad\<close> object, at its interface: the report being prepared (buttons held,
  trigger and stick values as handed over) and the report the virtual device shows,
  which is the one last submitted by \<open>update()\<close>.
\<close>

datatype XUSB_BUTTON =
    XUSB_GAMEPAD_A | XUSB_GAMEPAD_B | XUSB_GAMEPAD_X | XUSB_GAMEPAD_Y
  | XUSB_GAMEPAD_LEFT_SHOULDER | XUSB_GAMEPAD_RIGHT_SHOULDER
  | XUSB_GAMEPAD_START | XUSB_GAMEPAD_BACK | XUSB_GAMEPAD_GUIDE
  | XUSB_GAMEPAD_LEFT_THUMB | XUSB_GAMEPAD_RIGHT_THUMB
  | XUSB_GAMEPAD_DPAD_UP | XUSB_GAMEPAD_DPAD_DOWN
  | XUSB_GAMEPAD_DPAD_LEFT | XUSB_GAMEPAD_DPAD_RIGHT

record xusb_report =
  held :: "XUSB_BUTTON set"
  left_trigger :: pynum
  right_trigger :: pynum
  left_joystick :: "pynum \<times> pynum"
  right_joystick :: "pynum \<times> pynum"

definition neutral :: xusb_report where
  "neutral = \<lparr>held = {}, left_trigger = Fin 0, right_trigger = Fin 0,
     left_joystick = (Fin 0, Fin 0), right_joystick = (Fin 0, Fin 0)\<rparr>"

record VX360Gamepad =
  report :: xusb_report
  device :: xusb_report

definition press_button :: "XUSB_BUTTON \<Rightarrow> VX360Gamepad \<Rightarrow> VX360Gamepad" where
  "press_button b g = g\<lparr>report := (report g)\<lparr>held := insert b (held (report g))\<rparr>\<rparr>"

definition release_button :: "XUSB_BUTTON \<Rightarrow> VX360Gamepad \<Rightarrow> VX360Gamepad" where
  "release_button b g = g\<lparr>report := (report g)\<lparr>held := held (report g) - {b}\<rparr>\<rparr>"

definition left_trigger_float :: "pynum \<Rightarrow> VX360Gamepad \<Rightarrow> VX360Gamepad" where
  "left_trigger_float v g = g\<lparr>report := (report g)\<lparr>left_trigger := v\<rparr>\<rparr>"

definition right_trigger_float :: "pynum \<Rightarrow> VX360Gamepad \<Rightarrow> VX360Gamepad" where
  "right_trigger_float v g = g\<lparr>report := (report g)\<lparr>right_trigger := v\<rparr>\<rparr>"

definition left_joystick_float :: "pynum \<Rightarrow> pynum \<Rightarrow> VX360Gamepad \<Rightarrow> VX360Gamepad" where
  "left_joystick_float x y g = g\<lparr>report := (report g)\<lparr>left_joystick := (x, y)\<rparr>\<rparr>"

definition right_joystick_float :: "pynum \<Rightarrow> pynum \<Rightarrow> VX360Gamepad \<Rightarrow> VX360Gamepad" where
  "right_joystick_float x y g = g\<lparr>report := (report g)\<lparr>right_joystick := (x, y)\<rparr>\<rparr>"

definition reset :: "VX360Gamepad \<Rightarrow> VX360Gamepad" where
  "reset g = g\<lparr>report := neutral\<rparr>"

definition update :: "VX360Gamepad \<Rightarrow> VX360Gamepad" where
  "update g = g\<lparr>device := report g\<rparr>"

text \<open>
  The ViGEm bus behind \<open>vgamepad\<close>: whether it can hand out a device right now
  (\<open>vg.VX360Gamepad()\<close> raises when it cannot), and the devices plugged and unplugged
  so far, by the player of the controller that owned them.
\<close>

datatype bus_event = Plugged int | Unplugged int

record ViGEmBus =
  bus_ok :: bool
  bus_log :: "bus_event list"

record ControllerState =
  buttons :: "(string \<times> json) list"
  triggers :: "(string \<times> json) list"
  axes :: "(string \<times> json) list"

definition default_state :: ControllerState where
  "default_state = \<lparr>
     buttons = [(''a'', JBool False), (''b'', JBool False), (''x'', JBool False),
       (''y'', JBool False), (''lb'', JBool False), (''rb'', JBool False),
       (''start'', JBool False), (''back'', JBool False), (''guide'', JBool False),
       (''l3'', JBool False), (''r3'', JBool False),
       (''dpad_up'', JBool False), (''dpad_down'', JBool False),
       (''dpad_left'', JBool False), (''dpad_right'', JBool False)],
     triggers = [(''lt'', JNum (Fin 0)), (''rt'', JNum (Fin 0))],
     axes = [(''left_x'', JNum (Fin 0)), (''left_y'', JNum (Fin 0)),
       (''right_x'', JNum (Fin 0)), (''right_y'', JNum (Fin 0))]\<rparr>"

definition BUTTON_MAP :: "(string \<times> XUSB_BUTTON) list" where
  "BUTTON_MAP = [
     (''a'', XUSB_GAMEPAD_A), (''b'', XUSB_GAMEPAD_B),
     (''x'', XUSB_GAMEPAD_X), (''y'', XUSB_GAMEPAD_Y),
     (''lb'', XUSB_GAMEPAD_LEFT_SHOULDER), (''rb'', XUSB_GAMEPAD_RIGHT_SHOULDER),
     (''start'', XUSB_GAMEPAD_START), (''back'', XUSB_GAMEPAD_BACK),
     (''guide'', XUSB_GAMEPAD_GUIDE),
     (''l3'', XUSB_GAMEPAD_LEFT_THUMB), (''r3'', XUSB_GAMEPAD_RIGHT_THUMB),
     (''dpad_up'', XUSB_GAMEPAD_DPAD_UP), (''dpad_down'', XUSB_GAMEPAD_DPAD_DOWN),
     (''dpad_left'', XUSB_GAMEPAD_DPAD_LEFT), (''dpad_right'', XUSB_GAMEPAD_DPAD_RIGHT)]"

record VirtualController =
  vc_player_id :: int
  gamepad :: "VX360Gamepad option"
  vc_state :: ControllerState
  connected :: bool

text \<open>\<open>VirtualController.__init__\<close>\<close>

definition new_controller :: "int \<Rightarrow> VirtualController" where
  "new_controller p =
     \<lparr>vc_player_id = p, gamepad = None, vc_state = default_state, connected = False\<rparr>"

text \<open>
  \<open>connect\<close>: the constructor of the gamepad either raises, which is caught and
  answered with \<open>False\<close>, or yields a fresh device in the neutral position.
\<close>

definition connect :: "VirtualController \<Rightarrow> ViGEmBus \<Rightarrow> bool \<times> VirtualController \<times> ViGEmBus" where
  "connect c bus =
     (if bus_ok bus
      then (True,
            c\<lparr>gamepad := Some \<lparr>report = neutral, device = neutral\<rparr>, connected := True\<rparr>,
            bus\<lparr>bus_log := bus_log bus @ [Plugged (vc_player_id c)]\<rparr>)
      else (False, c, bus))"

text \<open>
  \<open>disconnect\<close>: reset and submit, with whatever that raises swallowed, then drop the
  gamepad object, which takes the device off the bus.  What the reset showed goes with
  the device.
\<close>

definition disconnect :: "VirtualController \<Rightarrow> ViGEmBus \<Rightarrow> VirtualController \<times> ViGEmBus" where
  "disconnect c bus =
     (case gamepad c of
        Some g \<Rightarrow>
          (c\<lparr>gamepad := None, connected := False\<rparr>,
           bus\<lparr>bus_log := bus_log bus @ [Unplugged (vc_player_id c)]\<rparr>)
      | None \<Rightarrow> (c\<lparr>connected := False\<rparr>, bus))"

definition is_connected :: "VirtualController \<Rightarrow> bool" where
  "is_connected c = (connected c \<and> gamepad c \<noteq> None)"

text \<open>One turn of the loop over \<open>buttons.items()\<close>.\<close>

definition apply_button :: "VX360Gamepad \<Rightarrow> string \<times> json \<Rightarrow> VX360Gamepad" where
  "apply_button g kv =
     (case map_of BUTTON_MAP (fst kv) of
        None \<Rightarrow> g
      | Some b \<Rightarrow> if truthy (snd kv) then press_button b g else release_button b g)"

text \<open>
  The trigger block of \<open>update_state\<close>: both values are computed before either is
  handed to the gamepad, so an exception leaves the gamepad as it was.
\<close>

definition set_triggers :: "(string \<times> json) list \<Rightarrow> VX360Gamepad \<Rightarrow> exn + VX360Gamepad" where
  "set_triggers ts g =
     (case clamp 0 1 (dict_get ts ''lt'' (JNum (Fin 0))) of
        Inl e \<Rightarrow> Inl e
      | Inr lt_value \<Rightarrow>
          (case clamp 0 1 (dict_get ts ''rt'' (JNum (Fin 0))) of
             Inl e \<Rightarrow> Inl e
           | Inr rt_value \<Rightarrow>
               Inr (right_trigger_float rt_value (left_trigger_float lt_value g))))"

text \<open>The joystick block: the four values are computed before the two calls.\<close>

definition set_joysticks :: "(string \<times> json) list \<Rightarrow> VX360Gamepad \<Rightarrow> exn + VX360Gamepad" where
  "set_joysticks ax g =
     (case clamp (- 1) 1 (dict_get ax ''left_x'' (JNum (Fin 0))) of
        Inl e \<Rightarrow> Inl e
      | Inr left_x \<Rightarrow>
     (case clamp (- 1) 1 (dict_get ax ''left_y'' (JNum (Fin 0))) of
        Inl e \<Rightarrow> Inl e
      | Inr left_y \<Rightarrow>
     (case clamp (- 1) 1 (dict_get ax ''right_x'' (JNum (Fin 0))) of
        Inl e \<Rightarrow> Inl e
      | Inr right_x \<Rightarrow>
     (case clamp (- 1) 1 (dict_get ax ''right_y'' (JNum (Fin 0))) of
        Inl e \<Rightarrow> Inl e
      | Inr right_y \<Rightarrow>
          Inr (right_joystick_float right_x right_y
                 (left_joystick_float left_x left_y g))))))"

text \<open>
  \<open>update_state\<close>.  The calls on the gamepad made before an exception stay made, so
  the controller is returned together with the exception, if any.  \<open>.items()\<close> and
  \<open>.get\<close> on a value that is not a dict raise \<open>AttributeError\<close>.
\<close>

definition update_state ::
  "json \<Rightarrow> json \<Rightarrow> json \<Rightarrow> VirtualController \<Rightarrow> VirtualController \<times> exn option" where
  "update_state btns trgs axs c =
     (case gamepad c of
        None \<Rightarrow> (c, None)
      | Some g \<Rightarrow>
          if \<not> connected c then (c, None)
          else
            (case btns of
               JObj bs \<Rightarrow>
                 (let g1 = foldl apply_button g bs in
                  case trgs of
                    JObj ts \<Rightarrow>
                      (case set_triggers ts g1 of
                         Inl e \<Rightarrow> (c\<lparr>gamepad := Some g1\<rparr>, Some e)
                       | Inr g2 \<Rightarrow>
                           (case axs of
                              JObj ax \<Rightarrow>
                                (case set_joysticks ax g2 of
                                   Inl e \<Rightarrow> (c\<lparr>gamepad := Some g2\<rparr>, Some e)
                                 | Inr g3 \<Rightarrow>
                                     (c\<lparr>gamepad := Some (update g3),
                                        vc_state :=
                                          \<lparr>buttons = bs, triggers = ts, axes = ax\<rparr>\<rparr>,
                                      None))
                            | _ \<Rightarrow> (c\<lparr>gamepad := Some g2\<rparr>, Some AttributeError)))
                  | _ \<Rightarrow> (c\<lparr>gamepad := Some g1\<rparr>, Some AttributeError))
             | _ \<Rightarrow> (c, Some AttributeError)))"

section \<open>The world around the server\<close>

text \<open>
  A connection is known by the identity of its websocket object.  The network holds the
  peers a \<open>send\<close> to which raises, and what has gone out so far.
\<close>

type_synonym websocket = nat

datatype server_msg =
    Msg_error string
  | Msg_connected int
  | Msg_pong
  | Msg_text string

datatype wire_event = Sent websocket server_msg | Closed websocket

record Network =
  unreachable :: "websocket set"
  wire :: "wire_event list"

definition send :: "websocket \<Rightarrow> server_msg \<Rightarrow> Network \<Rightarrow> Network \<times> exn option" where
  "send ws m net =
     (if ws \<in> unreachable net then (net, Some ConnectionClosed)
      else (net\<lparr>wire := wire net @ [Sent ws m]\<rparr>, None))"

definition close :: "websocket \<Rightarrow> Network \<Rightarrow> Network" where
  "close ws net = net\<lparr>unreachable := insert ws (unreachable net), wire := wire net @ [Closed ws]\<rparr>"

text \<open>
  The host as \<open>pynput\<close> drives it: the mouse buttons held down, and the calls of the
  methods that are not unfolded here (\<open>move_mouse\<close>, \<open>scroll\<close>, \<open>type_text\<close>,
  \<open>press_key\<close>, \<open>key_combination\<close>), each recorded with its arguments.  Whether such
  a call raises on its arguments is the host's affair: \<open>refuses\<close>.
\<close>

datatype Button = Button_left | Button_right

datatype sink_call =
    Move_mouse json json
  | Scroll json json
  | Type_text json
  | Press_key json
  | Key_combination json

record Host =
  down :: "Button set"
  calls :: "sink_call list"
  refuses :: "sink_call \<Rightarrow> bool"

definition mouse_press :: "Button \<Rightarrow> Host \<Rightarrow> Host" where
  "mouse_press b h = h\<lparr>down := insert b (down h)\<rparr>"

definition mouse_release :: "Button \<Rightarrow> Host \<Rightarrow> Host" where
  "mouse_release b h = h\<lparr>down := down h - {b}\<rparr>"

definition mouse_click :: "Button \<Rightarrow> Host \<Rightarrow> Host" where
  "mouse_click b h = mouse_release b (mouse_press b h)"

definition sink :: "sink_call \<Rightarrow> Host \<Rightarrow> Host \<times> exn option" where
  "sink c h =
     (if refuses h c then (h, Some SinkError)
      else (h\<lparr>calls := calls h @ [c]\<rparr>, None))"

section \<open>mouse\_keyboard.py\<close>

record MouseKeyboardController =
  mouse_sensitivity :: real
  left_button_pressed :: bool
  right_button_pressed :: bool

text \<open>\<open>MouseKeyboardController.__init__\<close>\<close>

definition new_mouse_keyboard :: MouseKeyboardController where
  "new_mouse_keyboard =
     \<lparr>mouse_sensitivity = 2, left_button_pressed = False, right_button_pressed = False\<rparr>"

text \<open>\<open>Button.left if button == "left" else Button.right\<close>\<close>

definition button_of :: "json \<Rightarrow> Button" where
  "button_of button = (if button = JStr ''left'' then Button_left else Button_right)"

definition click :: "json \<Rightarrow> MouseKeyboardController \<times> Host \<Rightarrow> MouseKeyboardController \<times> Host" where
  "click button mh = (fst mh, mouse_click (button_of button) (snd mh))"

definition press_mouse ::
  "json \<Rightarrow> MouseKeyboardController \<times> Host \<Rightarrow> MouseKeyboardController \<times> Host" where
  "press_mouse button mh =
     (let mk = fst mh; h = snd mh; btn = button_of button in
      if button = JStr ''left'' \<and> \<not> left_button_pressed mk
      then (mk\<lparr>left_button_pressed := True\<rparr>, mouse_press btn h)
      else if button = JStr ''right'' \<and> \<not> right_button_pressed mk
      then (mk\<lparr>right_button_pressed := True\<rparr>, mouse_press btn h)
      else (mk, h))"

definition release_mouse ::
  "json \<Rightarrow> MouseKeyboardController \<times> Host \<Rightarrow> MouseKeyboardController \<times> Host" where
  "release_mouse button mh =
     (let mk = fst mh; h = snd mh; btn = button_of button in
      if button = JStr ''left'' \<and> left_button_pressed mk
      then (mk\<lparr>left_button_pressed := False\<rparr>, mouse_release btn h)
      else if button = JStr ''right'' \<and> right_button_pressed mk
      then (mk\<lparr>right_button_pressed := False\<rparr>, mouse_release btn h)
      else (mk, h))"

section \<open>The server's state\<close>

type_synonym time = nat

record PlayerSession =
  player_id :: int
  websocket :: websocket
  connected_at :: time
  last_input_at :: time

text \<open>
  Everything the handlers of one \<open>ControllerServer\<close> share: the dict of the
  \<open>ControllerManager\<close>, the two dicts of the \<open>SessionManager\<close>, the module's
  \<open>_mouse_keyboard_controller\<close>, and the world outside.  Dicts keep insertion order.
\<close>

record system =
  controllers :: "(int \<times> VirtualController) list"
  sessions :: "(int \<times> PlayerSession) list"
  websocket_to_player :: "(websocket \<times> int) list"
  mouse_keyboard_controller :: "MouseKeyboardController option"
  vigem :: ViGEmBus
  network :: Network
  host :: Host

subsection \<open>ControllerManager\<close>

definition MAX_CONTROLLERS :: int where
  "MAX_CONTROLLERS = 4"

definition create_controller :: "int \<Rightarrow> system \<Rightarrow> system \<times> VirtualController option" where
  "create_controller p s =
     (if p < 1 \<or> p > MAX_CONTROLLERS then (s, None)
      else
        (case map_of (controllers s) p of
           Some c \<Rightarrow> (s, Some c)
         | None \<Rightarrow>
             (case connect (new_controller p) (vigem s) of
                (ok, c, bus) \<Rightarrow>
                  if ok
                  then (s\<lparr>controllers := AList.update p c (controllers s), vigem := bus\<rparr>,
                        Some c)
                  else (s\<lparr>vigem := bus\<rparr>, None))))"

definition get_controller :: "system \<Rightarrow> int \<Rightarrow> VirtualController option" where
  "get_controller s p = map_of (controllers s) p"

definition remove_controller :: "int \<Rightarrow> system \<Rightarrow> system" where
  "remove_controller p s =
     (case map_of (controllers s) p of
        None \<Rightarrow> s
      | Some c \<Rightarrow>
          s\<lparr>controllers := AList.delete p (controllers s),
            vigem := snd (disconnect c (vigem s))\<rparr>)"

definition disconnect_all :: "system \<Rightarrow> system" where
  "disconnect_all s =
     s\<lparr>controllers := [],
       vigem := foldl (\<lambda>bus c. snd (disconnect c bus)) (vigem s) (map snd (controllers s))\<rparr>"

subsection \<open>The callbacks \<open>ControllerServer\<close> installs in its \<open>SessionManager\<close>\<close>

text \<open>
  The result of \<open>create_controller\<close> is not looked at.  \<open>on_player_update\<close> belongs
  to the window and touches nothing here.
\<close>

definition on_player_connected :: "int \<Rightarrow> system \<Rightarrow> system" where
  "on_player_connected p s = fst (create_controller p s)"

definition on_player_disconnected :: "int \<Rightarrow> system \<Rightarrow> system" where
  "on_player_disconnected p s = remove_controller p s"

section \<open>session\_manager.py\<close>

definition MAX_PLAYERS :: int where
  "MAX_PLAYERS = 4"

definition get_available_id :: "system \<Rightarrow> int option" where
  "get_available_id s = List.find (\<lambda>i. map_of (sessions s) i = None) [1..MAX_PLAYERS]"

text \<open>
  \<open>add_player\<close>, under the lock.  An exception of the callback is caught and logged, so
  the callback is a change of the state and nothing else.  The two readings of the clock
  that a new \<open>PlayerSession\<close> takes are one instant here.
\<close>

definition add_player :: "websocket \<Rightarrow> time \<Rightarrow> system \<Rightarrow> system \<times> int option" where
  "add_player ws now s =
     (case map_of (websocket_to_player s) ws of
        Some p \<Rightarrow> (s, Some p)
      | None \<Rightarrow>
          (case get_available_id s of
             None \<Rightarrow> (s, None)
           | Some p \<Rightarrow>
               (on_player_connected p
                  (s\<lparr>sessions :=
                       AList.update p
                         \<lparr>player_id = p, websocket = ws,
                          connected_at = now, last_input_at = now\<rparr>
                         (sessions s),
                     websocket_to_player := AList.update ws p (websocket_to_player s)\<rparr>),
                Some p)))"

text \<open>
  \<open>remove_player\<close>.  \<open>del self.sessions[player_id]\<close> raises \<open>KeyError\<close> when the
  session is not there, after the connection has been forgotten.
\<close>

definition remove_player :: "websocket \<Rightarrow> system \<Rightarrow> system \<times> (exn + int option)" where
  "remove_player ws s =
     (case map_of (websocket_to_player s) ws of
        None \<Rightarrow> (s, Inr None)
      | Some p \<Rightarrow>
          (let s1 = s\<lparr>websocket_to_player := AList.delete ws (websocket_to_player s)\<rparr> in
           case map_of (sessions s1) p of
             None \<Rightarrow> (s1, Inl KeyError)
           | Some _ \<Rightarrow>
               (on_player_disconnected p (s1\<lparr>sessions := AList.delete p (sessions s1)\<rparr>),
                Inr (Some p))))"

definition get_player_id :: "system \<Rightarrow> websocket \<Rightarrow> int option" where
  "get_player_id s ws = map_of (websocket_to_player s) ws"

definition get_session :: "system \<Rightarrow> int \<Rightarrow> PlayerSession option" where
  "get_session s p = map_of (sessions s) p"

definition update_activity :: "int \<Rightarrow> time \<Rightarrow> system \<Rightarrow> system" where
  "update_activity p now s =
     (case map_of (sessions s) p of
        None \<Rightarrow> s
      | Some session \<Rightarrow>
          s\<lparr>sessions := AList.update p (session\<lparr>last_input_at := now\<rparr>) (sessions s)\<rparr>)"

definition get_player_count :: "system \<Rightarrow> nat" where
  "get_player_count s = length (sessions s)"

definition get_all_player_ids :: "system \<Rightarrow> int list" where
  "get_all_player_ids s = map fst (sessions s)"

definition is_full :: "system \<Rightarrow> bool" where
  "is_full s = (int (length (sessions s)) \<ge> MAX_PLAYERS)"

text \<open>
  \<open>broadcast\<close>: one turn of the loop, then the loop.  \<open>exclude_player\<close> is tested for
  truth before it is compared, so \<open>None\<close> and 0 exclude nobody.  An exception of
  \<open>send\<close> is caught and logged.
\<close>

definition broadcast_step ::
  "server_msg \<Rightarrow> int option \<Rightarrow> Network \<Rightarrow> int \<times> PlayerSession \<Rightarrow> Network" where
  "broadcast_step message exclude_player net kv =
     (if (case exclude_player of None \<Rightarrow> False | Some e \<Rightarrow> e \<noteq> 0 \<and> fst kv = e)
      then net
      else fst (send (websocket (snd kv)) message net))"

definition broadcast :: "server_msg \<Rightarrow> int option \<Rightarrow> system \<Rightarrow> system" where
  "broadcast message exclude_player s =
     s\<lparr>network := foldl (broadcast_step message exclude_player) (network s) (sessions s)\<rparr>"

definition clear_all :: "system \<Rightarrow> system" where
  "clear_all s = s\<lparr>sessions := [], websocket_to_player := []\<rparr>"

section \<open>server.py\<close>

text \<open>\<open>get_mouse_keyboard_controller\<close>: the instance is made at the first call.\<close>

definition get_mouse_keyboard_controller :: "system \<Rightarrow> MouseKeyboardController \<times> system" where
  "get_mouse_keyboard_controller s =
     (case mouse_keyboard_controller s of
        Some mk \<Rightarrow> (mk, s)
      | None \<Rightarrow> (new_mouse_keyboard, s\<lparr>mouse_keyboard_controller := Some new_mouse_keyboard\<rparr>))"

text \<open>Writing the instance and the host back after a method has run on them.\<close>

definition put_mouse :: "system \<Rightarrow> MouseKeyboardController \<times> Host \<Rightarrow> system" where
  "put_mouse s mh = s\<lparr>mouse_keyboard_controller := Some (fst mh), host := snd mh\<rparr>"

definition put_sink :: "system \<Rightarrow> Host \<times> exn option \<Rightarrow> system \<times> exn option" where
  "put_sink s he = (s\<lparr>host := fst he\<rparr>, snd he)"

text \<open>
  The branches of \<open>_process_message\<close> inside its \<open>try\<close>, each with the exception
  that leaves it, if any.  \<open>update_activity\<close> is the last statement of a branch and is
  not reached when an earlier one has raised.
\<close>

definition input_message ::
  "int \<Rightarrow> (string \<times> json) list \<Rightarrow> time \<Rightarrow> system \<Rightarrow> system \<times> exn option" where
  "input_message p d now s =
     (case get_controller s p of
        None \<Rightarrow> (s, None)
      | Some c \<Rightarrow>
          (case update_state (dict_get d ''buttons'' (JObj []))
                  (dict_get d ''triggers'' (JObj [])) (dict_get d ''axes'' (JObj [])) c of
             (c', Some e) \<Rightarrow> (s\<lparr>controllers := AList.update p c' (controllers s)\<rparr>, Some e)
           | (c', None) \<Rightarrow>
               (update_activity p now
                  (s\<lparr>controllers := AList.update p c' (controllers s)\<rparr>),
                None)))"

definition mouse_message ::
  "int \<Rightarrow> (string \<times> json) list \<Rightarrow> time \<Rightarrow> system \<Rightarrow> system \<times> exn option" where
  "mouse_message p d now s0 =
     (case get_mouse_keyboard_controller s0 of
        (mk, s) \<Rightarrow>
          (let action = dict_get d ''action'' (JStr []);
               r =
                 (if action = JStr ''move''
                  then put_sink s
                         (sink (Move_mouse (dict_get d ''dx'' (JNum (Fin 0)))
                                  (dict_get d ''dy'' (JNum (Fin 0)))) (host s))
                  else if action = JStr ''click''
                  then (put_mouse s (click (dict_get d ''button'' (JStr ''left'')) (mk, host s)),
                        None)
                  else if action = JStr ''press''
                  then (put_mouse s
                          (press_mouse (dict_get d ''button'' (JStr ''left'')) (mk, host s)),
                        None)
                  else if action = JStr ''release''
                  then (put_mouse s
                          (release_mouse (dict_get d ''button'' (JStr ''left'')) (mk, host s)),
                        None)
                  else if action = JStr ''scroll''
                  then put_sink s
                         (sink (Scroll (dict_get d ''dx'' (JNum (Fin 0)))
                                  (dict_get d ''dy'' (JNum (Fin 0)))) (host s))
                  else (s, None))
           in case snd r of
                Some e \<Rightarrow> r
              | None \<Rightarrow> (update_activity p now (fst r), None)))"

definition keyboard_message ::
  "int \<Rightarrow> (string \<times> json) list \<Rightarrow> time \<Rightarrow> system \<Rightarrow> system \<times> exn option" where
  "keyboard_message p d now s0 =
     (case get_mouse_keyboard_controller s0 of
        (mk, s) \<Rightarrow>
          (let action = dict_get d ''action'' (JStr []);
               r =
                 (if action = JStr ''type''
                  then put_sink s (sink (Type_text (dict_get d ''text'' (JStr []))) (host s))
                  else if action = JStr ''key''
                  then put_sink s (sink (Press_key (dict_get d ''key'' (JStr []))) (host s))
                  else if action = JStr ''combo''
                  then (let keys = dict_get d ''keys'' (JArr []) in
                        if truthy keys then put_sink s (sink (Key_combination keys) (host s))
                        else (s, None))
                  else (s, None))
           in case snd r of
                Some e \<Rightarrow> r
              | None \<Rightarrow> (update_activity p now (fst r), None)))"

definition ping_message :: "int \<Rightarrow> system \<Rightarrow> system \<times> exn option" where
  "ping_message p s =
     (case get_session s p of
        None \<Rightarrow> (s, None)
      | Some session \<Rightarrow>
          (case send (websocket session) Msg_pong (network s) of
             (net, e) \<Rightarrow> (s\<lparr>network := net\<rparr>, e)))"

definition disconnect_message :: "int \<Rightarrow> system \<Rightarrow> system \<times> exn option" where
  "disconnect_message p s =
     (case get_session s p of
        None \<Rightarrow> (s, None)
      | Some session \<Rightarrow> (s\<lparr>network := close (websocket session) (network s)\<rparr>, None))"

text \<open>
  The body of the \<open>try\<close>: \<open>data.get\<close> raises \<open>AttributeError\<close> when the frame is
  not an object; a \<open>type\<close> that is none of the five falls through every branch.
\<close>

definition dispatch :: "int \<Rightarrow> json \<Rightarrow> time \<Rightarrow> system \<Rightarrow> system \<times> exn option" where
  "dispatch p data now s =
     (case data of
        JObj d \<Rightarrow>
          (let msg_type = dict_get d ''type'' (JStr []) in
           if msg_type = JStr ''input'' then input_message p d now s
           else if msg_type = JStr ''mouse'' then mouse_message p d now s
           else if msg_type = JStr ''keyboard'' then keyboard_message p d now s
           else if msg_type = JStr ''ping'' then ping_message p s
           else if msg_type = JStr ''disconnect'' then disconnect_message p s
           else (s, None))
      | _ \<Rightarrow> (s, Some AttributeError))"

text \<open>
  \<open>_process_message\<close>: both \<open>except\<close> clauses log and return, so what is left of an
  exception is the state it was raised in.  The clock is read by \<open>update_activity\<close>;
  its reading comes with the frame.
\<close>

definition process_message :: "int \<Rightarrow> frame \<Rightarrow> time \<Rightarrow> system \<Rightarrow> system" where
  "process_message p f now s =
     (case f of
        Invalid_JSON \<Rightarrow> s
      | Parsed data \<Rightarrow> fst (dispatch p data now s))"

text \<open>
  How \<open>async for message in websocket\<close> stops: the peer closed in order, the
  connection broke (\<open>ConnectionClosed\<close>: a protocol error, a missed keepalive), or
  something else was raised.
\<close>

datatype loop_end = Closed_ok | Connection_closed | Other_exception

text \<open>
  What became of one call of \<open>handle_client\<close>: turned away because the server was
  full, served until the loop stopped, or left by an exception that nothing caught.
\<close>

datatype outcome = Rejected | Served loop_end | Escaped exn

text \<open>
  \<open>handle_client\<close> up to the \<open>try\<close>: \<open>Inr p\<close> when the welcome frame has gone out
  and the loop is entered for player \<open>p\<close>.  The two \<open>send\<close>s are outside the
  \<open>try\<close>: what they raise leaves the handler at once.
\<close>

definition handshake :: "websocket \<Rightarrow> time \<Rightarrow> system \<Rightarrow> system \<times> (outcome + int)" where
  "handshake ws now s =
     (case add_player ws now s of
        (s1, None) \<Rightarrow>
          (case send ws (Msg_error ''Server is full (max 4 players)'') (network s1) of
             (net, Some e) \<Rightarrow> (s1\<lparr>network := net\<rparr>, Inl (Escaped e))
           | (net, None) \<Rightarrow> (s1\<lparr>network := close ws net\<rparr>, Inl Rejected))
      | (s1, Some p) \<Rightarrow>
          (case send ws (Msg_connected p) (network s1) of
             (net, Some e) \<Rightarrow> (s1\<lparr>network := net\<rparr>, Inl (Escaped e))
           | (net, None) \<Rightarrow> (s1\<lparr>network := net\<rparr>, Inr p)))"

definition receive_loop :: "int \<Rightarrow> (time \<times> frame) list \<Rightarrow> system \<Rightarrow> system" where
  "receive_loop p frames s = foldl (\<lambda>s tf. process_message p (snd tf) (fst tf) s) s frames"

text \<open>
  The \<open>try\<close> of \<open>handle_client\<close>: the loop over the frames that arrive, the two
  \<open>except\<close> clauses, which only log, and the \<open>finally\<close>.
\<close>

definition serve ::
  "websocket \<Rightarrow> int \<Rightarrow> (time \<times> frame) list \<Rightarrow> loop_end \<Rightarrow> system \<Rightarrow> system \<times> outcome" where
  "serve ws p frames ending s =
     (case remove_player ws (receive_loop p frames s) of
        (s', Inl e) \<Rightarrow> (s', Escaped e)
      | (s', Inr _) \<Rightarrow> (s', Served ending))"

definition handle_client ::
  "websocket \<Rightarrow> time \<Rightarrow> (time \<times> frame) list \<Rightarrow> loop_end \<Rightarrow> system \<Rightarrow> system \<times> outcome" where
  "handle_client ws now frames ending s =
     (case handshake ws now s of
        (s1, Inl out) \<Rightarrow> (s1, out)
      | (s1, Inr p) \<Rightarrow> serve ws p frames ending s1)"

text \<open>\<open>stop\<close>, after the listening socket is closed.\<close>

definition stop :: "system \<Rightarrow> system" where
  "stop s = clear_all (disconnect_all s)"

text \<open>A server that has just been constructed, in a given world.\<close>

definition fresh :: "ViGEmBus \<Rightarrow> Network \<Rightarrow> Host \<Rightarrow> system" where
  "fresh bus net h =
     \<lparr>controllers = [], sessions = [], websocket_to_player = [],
      mouse_keyboard_controller = None, vigem = bus, network = net, host = h\<rparr>"

section \<open>Vocabulary of the properties\<close>


text \<open>
  Connection \<open>ws\<close> holds the session of player \<open>p\<close>, and player \<open>p\<close> has a
  controller with a live gamepad.
\<close>

definition registered :: "system \<Rightarrow> websocket \<Rightarrow> int \<Rightarrow> bool" where
  "registered s ws p =
     (map_of (websocket_to_player s) ws = Some p \<and> map_of (sessions s) p \<noteq> None)"

definition bound :: "system \<Rightarrow> int \<Rightarrow> bool" where
  "bound s p =
     (case map_of (controllers s) p of
        None \<Rightarrow> False
      | Some c \<Rightarrow> gamepad c \<noteq> None \<and> vc_player_id c = p)"

text \<open>What the virtual devices show, by player.\<close>

definition shown :: "system \<Rightarrow> (int \<times> xusb_report option) list" where
  "shown s = map (\<lambda>kv. (fst kv, map_option device (gamepad (snd kv)))) (controllers s)"

text \<open>
  Connections arriving one after the other, each taken as far as the start of its
  receive loop; the results in order of arrival.
\<close>

fun connect_all :: "(websocket \<times> time) list \<Rightarrow> system \<Rightarrow> system \<times> (outcome + int) list" where
  "connect_all [] s = (s, [])"
| "connect_all (c # cs) s =
     (case handshake (fst c) (snd c) s of
        (s1, r) \<Rightarrow> (case connect_all cs s1 of (s2, rs) \<Rightarrow> (s2, r # rs)))"

text \<open>A run of \<open>press_mouse\<close> and \<open>release_mouse\<close> calls on the one instance.\<close>

datatype mouse_op = Press json | Release json

fun do_mouse_op :: "mouse_op \<Rightarrow> MouseKeyboardController \<times> Host \<Rightarrow> MouseKeyboardController \<times> Host" where
  "do_mouse_op (Press button) mh = press_mouse button mh"
| "do_mouse_op (Release button) mh = release_mouse button mh"

definition mouse_ops ::
  "mouse_op list \<Rightarrow> MouseKeyboardController \<times> Host \<Rightarrow> MouseKeyboardController \<times> Host" where
  "mouse_ops ops mh = foldl (\<lambda>mh op. do_mouse_op op mh) mh ops"

text \<open>The flags of the instance agree with the buttons the host has down.\<close>

definition in_step :: "MouseKeyboardController \<times> Host \<Rightarrow> bool" where
  "in_step mh =
     ((left_button_pressed (fst mh) = (Button_left \<in> down (snd mh))) \<and>
      (right_button_pressed (fst mh) = (Button_right \<in> down (snd mh))))"

text \<open>
  A server just constructed in a world where the bus hands out devices, every peer can
  be reached and the host takes every call; and a controller whose gamepad has just
  been made.
\<close>

definition world0 :: system where
  "world0 = fresh \<lparr>bus_ok = True, bus_log = []\<rparr> \<lparr>unreachable = {}, wire = []\<rparr>
     \<lparr>down = {}, calls = [], refuses = (\<lambda>_. False)\<rparr>"

definition plugged_in :: "int \<Rightarrow> VirtualController" where
  "plugged_in p =
     (new_controller p)\<lparr>gamepad := Some \<lparr>report = neutral, device = neutral\<rparr>,
       connected := True\<rparr>"

text \<open>
  What one message can do to a state, seen from the registry and the controllers: the
  connections, the players in session, the bus and the players with a controller stay,
  and a live gamepad stays live.
\<close>

definition steady :: "system \<Rightarrow> system \<Rightarrow> bool" where
  "steady s s' =
     (websocket_to_player s' = websocket_to_player s \<and>
      map fst (sessions s') = map fst (sessions s) \<and>
      vigem s' = vigem s \<and>
      map fst (controllers s') = map fst (controllers s) \<and>
      (\<forall>q. bound s q \<longrightarrow> bound s' q))"

section \<open>Properties\<close>

subsection \<open>Auxiliary facts\<close>

lemma upto_MAX_PLAYERS: "[1..MAX_PLAYERS] = [1, 2, 3, 4]"
  by (simp add: MAX_PLAYERS_def upto_rec1)

lemma clamp_number:
  "lo \<le> hi \<Longrightarrow> clamp lo hi (JNum (Fin r)) = Inr (Fin (max lo (min hi r)))"
  by (simp add: clamp_def py_max_def py_min_def max_def min_def)



lemma set_triggers_Inr:
  assumes "set_triggers ts g = Inr g2"
  shows "\<exists>lt rt. clamp 0 1 (dict_get ts ''lt'' (JNum (Fin 0))) = Inr lt \<and>
           clamp 0 1 (dict_get ts ''rt'' (JNum (Fin 0))) = Inr rt \<and>
           g2 = g\<lparr>report := (report g)\<lparr>left_trigger := lt, right_trigger := rt\<rparr>\<rparr>"
  using assms
  by (auto simp: set_triggers_def left_trigger_float_def right_trigger_float_def
      split: sum.splits)

lemma set_joysticks_Inr:
  assumes "set_joysticks ax g = Inr g3"
  shows "\<exists>lx ly rx ry.
           clamp (- 1) 1 (dict_get ax ''left_x'' (JNum (Fin 0))) = Inr lx \<and>
           clamp (- 1) 1 (dict_get ax ''left_y'' (JNum (Fin 0))) = Inr ly \<and>
           clamp (- 1) 1 (dict_get ax ''right_x'' (JNum (Fin 0))) = Inr rx \<and>
           clamp (- 1) 1 (dict_get ax ''right_y'' (JNum (Fin 0))) = Inr ry \<and>
           g3 = g\<lparr>report := (report g)\<lparr>left_joystick := (lx, ly), right_joystick := (rx, ry)\<rparr>\<rparr>"
  using assms
  by (auto simp: set_joysticks_def left_joystick_float_def right_joystick_float_def
      split: sum.splits)

lemma update_state_ok:
  assumes "is_connected c" and "update_state btns trgs axs c = (c', None)"
  shows "\<exists>g bs ts ax g2 g3.
           gamepad c = Some g \<and> btns = JObj bs \<and> trgs = JObj ts \<and> axs = JObj ax \<and>
           set_triggers ts (foldl apply_button g bs) = Inr g2 \<and>
           set_joysticks ax g2 = Inr g3 \<and>
           c' = c\<lparr>gamepad := Some (update g3),
                  vc_state := \<lparr>buttons = bs, triggers = ts, axes = ax\<rparr>\<rparr>"
  using assms
  by (auto simp: update_state_def is_connected_def Let_def
      split: option.splits json.splits sum.splits if_splits)


lemma foldl_apply_button_rest:
  "device (foldl apply_button g bs) = device g \<and>
   left_trigger (report (foldl apply_button g bs)) = left_trigger (report g) \<and>
   right_trigger (report (foldl apply_button g bs)) = right_trigger (report g) \<and>
   left_joystick (report (foldl apply_button g bs)) = left_joystick (report g) \<and>
   right_joystick (report (foldl apply_button g bs)) = right_joystick (report g)"
  by (induction bs arbitrary: g)
    (auto simp: apply_button_def press_button_def release_button_def split: option.splits)

lemma distinct_snd_inj:
  "distinct (map snd xs) \<Longrightarrow> (a, b) \<in> set xs \<Longrightarrow> (a', b) \<in> set xs \<Longrightarrow> a = a'"
  by (induction xs) (auto simp: rev_image_eqI)

lemma BUTTON_MAP_inj:
  assumes "map_of BUTTON_MAP n = Some b" and "map_of BUTTON_MAP n' = Some b"
  shows "n = n'"
proof -
  have "distinct (map snd BUTTON_MAP)" by (simp add: BUTTON_MAP_def)
  moreover have "(n, b) \<in> set BUTTON_MAP" "(n', b) \<in> set BUTTON_MAP"
    using assms by (auto dest: map_of_SomeD)
  ultimately show ?thesis by (rule distinct_snd_inj)
qed

lemma foldl_apply_button_other:
  assumes "map_of BUTTON_MAP name = Some b" and "name \<notin> fst ` set bs"
  shows "(b \<in> held (report (foldl apply_button g bs))) = (b \<in> held (report g))"
  using assms(2)
proof (induction bs arbitrary: g)
  case Nil
  show ?case by simp
next
  case (Cons kv bs)
  from Cons.prems have ne: "fst kv \<noteq> name" and rest: "name \<notin> fst ` set bs" by auto
  have "(b \<in> held (report (apply_button g kv))) = (b \<in> held (report g))"
  proof (cases "map_of BUTTON_MAP (fst kv)")
    case None
    then show ?thesis by (simp add: apply_button_def)
  next
    case (Some b')
    with assms(1) ne have "b' \<noteq> b" using BUTTON_MAP_inj by blast
    with Some show ?thesis
      by (auto simp: apply_button_def press_button_def release_button_def)
  qed
  with Cons.IH [OF rest] show ?case by simp
qed

subsection \<open>What the callbacks leave alone\<close>

lemma create_controller_sessions [simp]:
  "sessions (fst (create_controller p s)) = sessions s"
  "websocket_to_player (fst (create_controller p s)) = websocket_to_player s"
  "network (fst (create_controller p s)) = network s"
  "host (fst (create_controller p s)) = host s"
  "mouse_keyboard_controller (fst (create_controller p s)) = mouse_keyboard_controller s"
  by (simp_all add: create_controller_def connect_def split: option.splits)

lemma remove_controller_sessions [simp]:
  "sessions (remove_controller p s) = sessions s"
  "websocket_to_player (remove_controller p s) = websocket_to_player s"
  "network (remove_controller p s) = network s"
  "host (remove_controller p s) = host s"
  "mouse_keyboard_controller (remove_controller p s) = mouse_keyboard_controller s"
  by (simp_all add: remove_controller_def split: option.splits)

subsection \<open>Registering twice\<close>

text \<open>
  C6.  \<open>add_player\<close> on a connection that is already registered returns the player it
  has and changes nothing: no session is made and the number of sessions stays.  In
  particular a second \<open>add_player\<close> right after a first one that succeeded returns the
  same player and leaves the state of the first.
\<close>

theorem add_player_idempotent:
  "(map_of (websocket_to_player s) ws = Some p \<longrightarrow>
      add_player ws now s = (s, Some p) \<and>
      get_player_count (fst (add_player ws now s)) = get_player_count s) \<and>
   (add_player ws now s = (s1, Some p) \<longrightarrow> add_player ws now' s1 = (s1, Some p))"
proof (intro conjI impI)
  assume "map_of (websocket_to_player s) ws = Some p"
  then show "add_player ws now s = (s, Some p)"
    by (simp add: add_player_def)
  then show "get_player_count (fst (add_player ws now s)) = get_player_count s"
    by simp
next
  assume a: "add_player ws now s = (s1, Some p)"
  have "map_of (websocket_to_player s1) ws = Some p"
  proof (cases "map_of (websocket_to_player s) ws")
    case (Some q)
    with a show ?thesis by (simp add: add_player_def)
  next
    case None
    with a show ?thesis
      by (auto simp: add_player_def on_player_connected_def AList.update_conv'
          split: option.splits)
  qed
  then show "add_player ws now' s1 = (s1, Some p)"
    by (simp add: add_player_def)
qed

theorem add_player_idempotent_witness:
  "add_player 7 5 (fst (add_player 7 0 world0)) = (fst (add_player 7 0 world0), Some 1) \<and>
   get_player_count (fst (add_player 7 5 (fst (add_player 7 0 world0)))) = 1"
proof -
  have a: "add_player 7 0 world0 = (fst (add_player 7 0 world0), Some 1)"
    by (simp add: prod_eq_iff add_player_def world0_def fresh_def get_available_id_def
        upto_MAX_PLAYERS)
  have b: "map_of (websocket_to_player (fst (add_player 7 0 world0))) 7 = Some 1"
    by (simp add: add_player_def world0_def fresh_def get_available_id_def
        upto_MAX_PLAYERS on_player_connected_def)
  have c: "get_player_count (fst (add_player 7 0 world0)) = 1"
    by (simp add: add_player_def world0_def fresh_def get_available_id_def
        upto_MAX_PLAYERS on_player_connected_def get_player_count_def)
  have d: "add_player 7 5 (fst (add_player 7 0 world0)) = (fst (add_player 7 0 world0), Some 1) \<and>
      get_player_count (fst (add_player 7 5 (fst (add_player 7 0 world0)))) =
        get_player_count (fst (add_player 7 0 world0))"
    using add_player_idempotent [of "fst (add_player 7 0 world0)" 7 1 5] b by blast
  have e: "add_player 7 5 (fst (add_player 7 0 world0)) = (fst (add_player 7 0 world0), Some 1)"
    using add_player_idempotent [of world0 7 1 0 "fst (add_player 7 0 world0)" 5] a by blast
  from d e c show ?thesis by simp
qed

subsection \<open>Input for a player without a controller\<close>

text \<open>
  C7.  An \<open>input\<close> message for a player who has no controller changes nothing and
  raises nothing: \<open>_process_message\<close> leaves the whole state as it was.  The same
  holds one level down: \<open>update_state\<close> on a controller that is not connected returns
  at once.
\<close>

theorem input_without_binding_is_noop:
  "(get_controller s p = None \<longrightarrow> dict_get d ''type'' (JStr []) = JStr ''input'' \<longrightarrow>
      dispatch p (JObj d) now s = (s, None) \<and> process_message p (Parsed (JObj d)) now s = s) \<and>
   (\<not> is_connected c \<longrightarrow> update_state btns trgs axs c = (c, None))"
  by (auto simp: dispatch_def input_message_def process_message_def update_state_def
      is_connected_def split: option.splits)


theorem input_without_binding_is_noop_witness:
  "dispatch 1 (JObj [(''type'', JStr ''input''), (''triggers'', JObj [(''lt'', JNum (Fin 2))])])
      5 world0 = (world0, None) \<and>
   process_message 1
      (Parsed (JObj [(''type'', JStr ''input''), (''triggers'', JObj [(''lt'', JNum (Fin 2))])]))
      5 world0 = world0 \<and>
   update_state (JObj [(''a'', JBool True)]) (JObj []) (JObj []) (new_controller 1) =
     (new_controller 1, None)"
proof -
  have a: "get_controller world0 1 = None"
    by (simp add: get_controller_def world0_def fresh_def)
  have b: "dict_get [(''type'', JStr ''input''), (''triggers'', JObj [(''lt'', JNum (Fin 2))])]
             ''type'' (JStr []) = JStr ''input''"
    by (simp add: dict_get_def)
  have c: "\<not> is_connected (new_controller 1)"
    by (simp add: is_connected_def new_controller_def)
  show ?thesis
    using input_without_binding_is_noop
      [of world0 1 "[(''type'', JStr ''input''), (''triggers'', JObj [(''lt'', JNum (Fin 2))])]"
        5 "new_controller 1" "JObj [(''a'', JBool True)]" "JObj []" "JObj []"] a b c
    by blast
qed

subsection \<open>Clamping\<close>



subsection \<open>Fields a snapshot leaves out\<close>

text \<open>
  C9.  When \<open>update_state\<close> on a connected controller goes through, a trigger or a
  stick axis that the payload does not name is shown by the device as 0, whatever it
  was before, while a button of \<open>BUTTON_MAP\<close> that the payload does not name is shown
  as the gamepad held it before the call.
\<close>

theorem partial_snapshot:
  assumes "is_connected c" and "gamepad c = Some g"
    and "update_state (JObj bs) (JObj ts) (JObj ax) c = (c', None)"
  shows "\<exists>g'. gamepad c' = Some g' \<and>
           (map_of ts ''lt'' = None \<longrightarrow> left_trigger (device g') = Fin 0) \<and>
           (map_of ts ''rt'' = None \<longrightarrow> right_trigger (device g') = Fin 0) \<and>
           (map_of ax ''left_x'' = None \<longrightarrow> fst (left_joystick (device g')) = Fin 0) \<and>
           (map_of ax ''left_y'' = None \<longrightarrow> snd (left_joystick (device g')) = Fin 0) \<and>
           (map_of ax ''right_x'' = None \<longrightarrow> fst (right_joystick (device g')) = Fin 0) \<and>
           (map_of ax ''right_y'' = None \<longrightarrow> snd (right_joystick (device g')) = Fin 0) \<and>
           (\<forall>name b. map_of BUTTON_MAP name = Some b \<and> name \<notin> fst ` set bs \<longrightarrow>
              (b \<in> held (device g')) = (b \<in> held (report g)))"
proof -
  from update_state_ok [OF assms(1,3)] assms(2) obtain g2 g3 where
    shape: "set_triggers ts (foldl apply_button g bs) = Inr g2" "set_joysticks ax g2 = Inr g3"
      "c' = c\<lparr>gamepad := Some (update g3),
              vc_state := \<lparr>buttons = bs, triggers = ts, axes = ax\<rparr>\<rparr>"
    by auto
  from set_triggers_Inr [OF shape(1)] obtain lt rt where
    t: "clamp 0 1 (dict_get ts ''lt'' (JNum (Fin 0))) = Inr lt"
       "clamp 0 1 (dict_get ts ''rt'' (JNum (Fin 0))) = Inr rt"
       "g2 = (foldl apply_button g bs)\<lparr>report :=
          (report (foldl apply_button g bs))\<lparr>left_trigger := lt, right_trigger := rt\<rparr>\<rparr>"
    by blast
  from set_joysticks_Inr [OF shape(2)] obtain lx ly rx ry where
    j: "clamp (- 1) 1 (dict_get ax ''left_x'' (JNum (Fin 0))) = Inr lx"
       "clamp (- 1) 1 (dict_get ax ''left_y'' (JNum (Fin 0))) = Inr ly"
       "clamp (- 1) 1 (dict_get ax ''right_x'' (JNum (Fin 0))) = Inr rx"
       "clamp (- 1) 1 (dict_get ax ''right_y'' (JNum (Fin 0))) = Inr ry"
       "g3 = g2\<lparr>report := (report g2)\<lparr>left_joystick := (lx, ly), right_joystick := (rx, ry)\<rparr>\<rparr>"
    by blast
  have dev: "left_trigger (device (update g3)) = lt" "right_trigger (device (update g3)) = rt"
    "left_joystick (device (update g3)) = (lx, ly)" "right_joystick (device (update g3)) = (rx, ry)"
    "held (device (update g3)) = held (report (foldl apply_button g bs))"
    by (simp_all add: update_def j(5) t(3))
  have z: "clamp lo hi (dict_get kvs k (JNum (Fin 0))) = Inr n \<Longrightarrow> map_of kvs k = None \<Longrightarrow>
      lo \<le> 0 \<Longrightarrow> 0 \<le> hi \<Longrightarrow> n = Fin 0" for lo hi n k and kvs :: "(string \<times> json) list"
    by (simp add: dict_get_def clamp_number)
  have b: "\<forall>name b. map_of BUTTON_MAP name = Some b \<and> name \<notin> fst ` set bs \<longrightarrow>
      (b \<in> held (device (update g3))) = (b \<in> held (report g))"
    using foldl_apply_button_other [of _ _ bs g] dev(5) by auto
  show ?thesis
    using shape(3) dev(1-4) z [OF t(1)] z [OF t(2)] z [OF j(1)] z [OF j(2)] z [OF j(3)]
      z [OF j(4)] b
    by (intro exI [of _ "update g3"]) simp
qed

theorem partial_snapshot_witness:
  "\<exists>g'. gamepad (fst (update_state (JObj [(''b'', JBool True)]) (JObj [])
                        (JObj [(''left_y'', JNum (Fin 1))])
                        ((plugged_in 1)\<lparr>gamepad :=
                           Some \<lparr>report = neutral\<lparr>held := {XUSB_GAMEPAD_A}\<rparr>,
                                 device = neutral\<rparr>\<rparr>))) = Some g' \<and>
        left_trigger (device g') = Fin 0 \<and> right_trigger (device g') = Fin 0 \<and>
        fst (left_joystick (device g')) = Fin 0 \<and>
        right_joystick (device g') = (Fin 0, Fin 0) \<and>
        XUSB_GAMEPAD_A \<in> held (device g')"
proof -
  let ?g = "\<lparr>report = neutral\<lparr>held := {XUSB_GAMEPAD_A}\<rparr>, device = neutral\<rparr>"
  let ?c = "(plugged_in 1)\<lparr>gamepad := Some ?g\<rparr>"
  let ?r = "update_state (JObj [(''b'', JBool True)]) (JObj [])
              (JObj [(''left_y'', JNum (Fin 1))]) ?c"
  have a: "is_connected ?c" by (simp add: is_connected_def plugged_in_def)
  have b: "gamepad ?c = Some ?g" by simp
  have "snd ?r = None"
    by (simp add: update_state_def plugged_in_def set_triggers_def set_joysticks_def
        clamp_def dict_get_def)
  then have c: "?r = (fst ?r, None)" by (cases ?r) simp
  have d: "map_of BUTTON_MAP ''a'' = Some XUSB_GAMEPAD_A" by (simp add: BUTTON_MAP_def)
  from partial_snapshot [OF a b c] obtain g' where g':
    "gamepad (fst ?r) = Some g'"
    "map_of [] ''lt'' = (None :: json option) \<longrightarrow> left_trigger (device g') = Fin 0"
    "map_of [] ''rt'' = (None :: json option) \<longrightarrow> right_trigger (device g') = Fin 0"
    "map_of [(''left_y'', JNum (Fin 1))] ''left_x'' = None \<longrightarrow>
       fst (left_joystick (device g')) = Fin 0"
    "map_of [(''left_y'', JNum (Fin 1))] ''right_x'' = None \<longrightarrow>
       fst (right_joystick (device g')) = Fin 0"
    "map_of [(''left_y'', JNum (Fin 1))] ''right_y'' = None \<longrightarrow>
       snd (right_joystick (device g')) = Fin 0"
    "\<forall>name b. map_of BUTTON_MAP name = Some b \<and> name \<notin> fst ` set [(''b'', JBool True)] \<longrightarrow>
       (b \<in> held (device g')) = (b \<in> held (report ?g))"
    by (elim exE conjE) (rule that)
  from g'(7) [rule_format, of "''a''" XUSB_GAMEPAD_A] d
  have "XUSB_GAMEPAD_A \<in> held (device g')" by simp
  moreover from g'(5,6) have "right_joystick (device g') = (Fin 0, Fin 0)"
    by (simp add: prod_eq_iff)
  ultimately show ?thesis using g'(1-4) by simp
qed

subsection \<open>Mouse buttons\<close>

lemma press_release_in_step:
  "in_step mh \<Longrightarrow> in_step (press_mouse button mh)"
  "in_step mh \<Longrightarrow> in_step (release_mouse button mh)"
  by (auto simp: in_step_def press_mouse_def release_mouse_def button_of_def
      mouse_press_def mouse_release_def Let_def)

lemma mouse_ops_in_step: "in_step mh \<Longrightarrow> in_step (mouse_ops ops mh)"
  unfolding mouse_ops_def
proof (induction ops arbitrary: mh)
  case Nil
  then show ?case by simp
next
  case (Cons op ops)
  have "in_step (do_mouse_op op mh)"
    using Cons.prems by (cases op) (simp_all add: press_release_in_step)
  from Cons.IH [OF this] show ?case by simp
qed

text \<open>
  C10.  \<open>press_mouse\<close> on a button whose flag is set and \<open>release_mouse\<close> on a button
  whose flag is clear change nothing, neither the flags nor the host.  Runs of
  \<open>press_mouse\<close> and \<open>release_mouse\<close> keep the flags in step with the buttons the host
  has down; a new instance on a host with no button down starts in step.
\<close>

theorem mouse_buttons_guarded:
  "(left_button_pressed (fst mh) \<longrightarrow> press_mouse (JStr ''left'') mh = mh) \<and>
   (right_button_pressed (fst mh) \<longrightarrow> press_mouse (JStr ''right'') mh = mh) \<and>
   (\<not> left_button_pressed (fst mh) \<longrightarrow> release_mouse (JStr ''left'') mh = mh) \<and>
   (\<not> right_button_pressed (fst mh) \<longrightarrow> release_mouse (JStr ''right'') mh = mh) \<and>
   (in_step mh \<longrightarrow> in_step (mouse_ops ops mh)) \<and>
   (down h = {} \<longrightarrow> in_step (mouse_ops ops (new_mouse_keyboard, h)))"
proof -
  have "in_step (new_mouse_keyboard, h)" if "down h = {}"
    using that by (simp add: in_step_def new_mouse_keyboard_def)
  then show ?thesis
    by (auto simp: press_mouse_def release_mouse_def Let_def mouse_ops_in_step)
qed

theorem mouse_buttons_guarded_witness:
  "press_mouse (JStr ''left'') (press_mouse (JStr ''left'') (new_mouse_keyboard, host world0)) =
     press_mouse (JStr ''left'') (new_mouse_keyboard, host world0) \<and>
   press_mouse (JStr ''right'') (press_mouse (JStr ''right'') (new_mouse_keyboard, host world0)) =
     press_mouse (JStr ''right'') (new_mouse_keyboard, host world0) \<and>
   release_mouse (JStr ''left'') (new_mouse_keyboard, host world0) =
     (new_mouse_keyboard, host world0) \<and>
   release_mouse (JStr ''right'') (new_mouse_keyboard, host world0) =
     (new_mouse_keyboard, host world0) \<and>
   in_step (new_mouse_keyboard, host world0) \<and>
   in_step (mouse_ops [Press (JStr ''left''), Press (JStr ''left''), Release (JStr ''right''),
              Release (JStr ''left'')] (new_mouse_keyboard, host world0))"
proof -
  let ?mh = "(new_mouse_keyboard, host world0)"
  let ?ops = "[Press (JStr ''left''), Press (JStr ''left''), Release (JStr ''right''),
              Release (JStr ''left'')]"
  have a: "left_button_pressed (fst (press_mouse (JStr ''left'') ?mh))"
    "right_button_pressed (fst (press_mouse (JStr ''right'') ?mh))"
    by (simp_all add: press_mouse_def new_mouse_keyboard_def)
  have b: "\<not> left_button_pressed (fst ?mh)" "\<not> right_button_pressed (fst ?mh)"
    by (simp_all add: new_mouse_keyboard_def)
  have c: "down (host world0) = {}" by (simp add: world0_def fresh_def)
  have d: "in_step ?mh" using c by (simp add: in_step_def new_mouse_keyboard_def)
  show ?thesis
    using mouse_buttons_guarded [of "press_mouse (JStr ''left'') ?mh" ?ops "host world0"]
      mouse_buttons_guarded [of "press_mouse (JStr ''right'') ?mh" ?ops "host world0"]
      mouse_buttons_guarded [of ?mh ?ops "host world0"] a b c d
    by blast
qed

subsection \<open>Broadcast\<close>

lemma broadcast_loop:
  assumes "ex = Some 0 \<longrightarrow> 0 \<notin> fst ` set kvs"
  shows "foldl (broadcast_step m ex) net kvs =
     net\<lparr>wire := wire net @
       map (\<lambda>kv. Sent (websocket (snd kv)) m)
         (filter (\<lambda>kv. Some (fst kv) \<noteq> ex \<and> websocket (snd kv) \<notin> unreachable net) kvs)\<rparr>"
  using assms
proof (induction kvs arbitrary: net)
  case Nil
  show ?case by simp
next
  case (Cons kv kvs)
  let ?net = "broadcast_step m ex net kv"
  have u: "unreachable ?net = unreachable net"
    by (simp add: broadcast_step_def send_def split: option.splits)
  have w: "wire ?net = wire net @
      (if Some (fst kv) \<noteq> ex \<and> websocket (snd kv) \<notin> unreachable net
       then [Sent (websocket (snd kv)) m] else [])"
    using Cons.prems by (auto simp: broadcast_step_def send_def split: option.splits)
  from Cons.prems have "ex = Some 0 \<longrightarrow> 0 \<notin> fst ` set kvs" by simp
  from Cons.IH [OF this, of ?net]
  have "foldl (broadcast_step m ex) ?net kvs =
      ?net\<lparr>wire := wire ?net @
        map (\<lambda>kv. Sent (websocket (snd kv)) m)
          (filter (\<lambda>kv. Some (fst kv) \<noteq> ex \<and> websocket (snd kv) \<notin> unreachable net) kvs)\<rparr>"
    by (simp only: u)
  moreover have "?net\<lparr>wire := X\<rparr> = net\<lparr>wire := X\<rparr>" for X
    by (simp add: broadcast_step_def send_def split: option.splits)
  ultimately show ?case by (simp add: w)
qed

text \<open>
  C8.  \<open>broadcast\<close> leaves everything but the wire alone and puts on the wire, in the
  order of the sessions, the message for every session other than the excluded player
  whose peer can be reached: a peer on which \<open>send\<close> raises costs nobody else the
  message, and nothing is raised.  (Sessions are numbered from 1, so excluding 0 excludes
  nobody.)
\<close>

theorem broadcast_reaches_all:
  assumes "0 \<notin> fst ` set (sessions s)"
  shows "broadcast m ex s =
     s\<lparr>network := (network s)\<lparr>wire := wire (network s) @
       map (\<lambda>kv. Sent (websocket (snd kv)) m)
         (filter (\<lambda>kv. Some (fst kv) \<noteq> ex \<and> websocket (snd kv) \<notin> unreachable (network s))
            (sessions s))\<rparr>\<rparr>"
  using assms by (simp add: broadcast_def broadcast_loop)

theorem broadcast_reaches_all_witness:
  "0 \<notin> fst ` set (sessions (world0\<lparr>sessions :=
       [(1, \<lparr>player_id = 1, websocket = 10, connected_at = 0, last_input_at = 0\<rparr>),
        (2, \<lparr>player_id = 2, websocket = 20, connected_at = 0, last_input_at = 0\<rparr>),
        (3, \<lparr>player_id = 3, websocket = 30, connected_at = 0, last_input_at = 0\<rparr>),
        (4, \<lparr>player_id = 4, websocket = 40, connected_at = 0, last_input_at = 0\<rparr>)],
       network := \<lparr>unreachable = {20}, wire = []\<rparr>\<rparr>)) \<and>
   wire (network (broadcast (Msg_text ''hello'') (Some 1) (world0\<lparr>sessions :=
       [(1, \<lparr>player_id = 1, websocket = 10, connected_at = 0, last_input_at = 0\<rparr>),
        (2, \<lparr>player_id = 2, websocket = 20, connected_at = 0, last_input_at = 0\<rparr>),
        (3, \<lparr>player_id = 3, websocket = 30, connected_at = 0, last_input_at = 0\<rparr>),
        (4, \<lparr>player_id = 4, websocket = 40, connected_at = 0, last_input_at = 0\<rparr>)],
       network := \<lparr>unreachable = {20}, wire = []\<rparr>\<rparr>))) =
     [Sent 30 (Msg_text ''hello''), Sent 40 (Msg_text ''hello'')]"
proof -
  let ?s = "world0\<lparr>sessions :=
       [(1, \<lparr>player_id = 1, websocket = 10, connected_at = 0, last_input_at = 0\<rparr>),
        (2, \<lparr>player_id = 2, websocket = 20, connected_at = 0, last_input_at = 0\<rparr>),
        (3, \<lparr>player_id = 3, websocket = 30, connected_at = 0, last_input_at = 0\<rparr>),
        (4, \<lparr>player_id = 4, websocket = 40, connected_at = 0, last_input_at = 0\<rparr>)],
       network := \<lparr>unreachable = {20}, wire = []\<rparr>\<rparr>"
  have a: "0 \<notin> fst ` set (sessions ?s)" by simp
  from broadcast_reaches_all [OF a, of "Msg_text ''hello''" "Some 1"] a
  show ?thesis by simp
qed

subsection \<open>Allocation of player ids\<close>

lemma get_available_id_Some:
  "get_available_id s = Some p \<longleftrightarrow>
     1 \<le> p \<and> p \<le> MAX_PLAYERS \<and> map_of (sessions s) p = None \<and>
     (\<forall>i. 1 \<le> i \<and> i < p \<longrightarrow> map_of (sessions s) i \<noteq> None)"
proof
  assume "get_available_id s = Some p"
  then have p: "p \<in> {1, 2, 3, 4}" "map_of (sessions s) p = None"
    and low: "\<forall>i \<in> {1, 2, 3, 4}. i < p \<longrightarrow> map_of (sessions s) i \<noteq> None"
    by (auto simp: get_available_id_def upto_MAX_PLAYERS split: if_splits)
  have "i \<in> {1, 2, 3, 4}" if "1 \<le> i" "i < p" for i :: int
    using that p(1) by auto
  with p low show "1 \<le> p \<and> p \<le> MAX_PLAYERS \<and> map_of (sessions s) p = None \<and>
     (\<forall>i. 1 \<le> i \<and> i < p \<longrightarrow> map_of (sessions s) i \<noteq> None)"
    by (auto simp: MAX_PLAYERS_def)
next
  assume a: "1 \<le> p \<and> p \<le> MAX_PLAYERS \<and> map_of (sessions s) p = None \<and>
     (\<forall>i. 1 \<le> i \<and> i < p \<longrightarrow> map_of (sessions s) i \<noteq> None)"
  then have c: "p = 1 \<or> p = 2 \<or> p = 3 \<or> p = 4" by (auto simp: MAX_PLAYERS_def)
  from a have l: "map_of (sessions s) i \<noteq> None" if "1 \<le> i" "i < p" for i
    using that by blast
  from a have n: "map_of (sessions s) p = None" by blast
  show "get_available_id s = Some p"
    using c n l [of 1] l [of 2] l [of 3]
    by (auto simp: get_available_id_def upto_MAX_PLAYERS)
qed

lemma get_available_id_None:
  "get_available_id s = None \<longleftrightarrow>
     (\<forall>i. 1 \<le> i \<and> i \<le> MAX_PLAYERS \<longrightarrow> map_of (sessions s) i \<noteq> None)"
proof
  assume "get_available_id s = None"
  then have all: "\<forall>i \<in> {1, 2, 3, 4}. map_of (sessions s) i \<noteq> None"
    by (auto simp: get_available_id_def upto_MAX_PLAYERS split: if_splits)
  have "i \<in> {1, 2, 3, 4}" if "1 \<le> i" "i \<le> 4" for i :: int
    using that by auto
  with all show "\<forall>i. 1 \<le> i \<and> i \<le> MAX_PLAYERS \<longrightarrow> map_of (sessions s) i \<noteq> None"
    by (auto simp: MAX_PLAYERS_def)
next
  assume h: "\<forall>i. 1 \<le> i \<and> i \<le> MAX_PLAYERS \<longrightarrow> map_of (sessions s) i \<noteq> None"
  have l: "map_of (sessions s) i \<noteq> None" if "1 \<le> i" "i \<le> 4" for i
    using h that by (simp add: MAX_PLAYERS_def)
  show "get_available_id s = None"
    using l [of 1] l [of 2] l [of 3] l [of 4]
    by (auto simp: get_available_id_def upto_MAX_PLAYERS)
qed

lemma on_player_connected_keeps [simp]:
  "sessions (on_player_connected p s) = sessions s"
  "websocket_to_player (on_player_connected p s) = websocket_to_player s"
  "network (on_player_connected p s) = network s"
  "host (on_player_connected p s) = host s"
  "mouse_keyboard_controller (on_player_connected p s) = mouse_keyboard_controller s"
  by (simp_all add: on_player_connected_def)

lemma add_player_new:
  assumes "map_of (websocket_to_player s) ws = None" and "get_available_id s = Some p"
  shows "snd (add_player ws now s) = Some p"
    and "sessions (fst (add_player ws now s)) =
           AList.update p \<lparr>player_id = p, websocket = ws, connected_at = now,
             last_input_at = now\<rparr> (sessions s)"
    and "websocket_to_player (fst (add_player ws now s)) =
           AList.update ws p (websocket_to_player s)"
    and "network (fst (add_player ws now s)) = network s"
  using assms by (simp_all add: add_player_def)

lemma add_player_full:
  assumes "map_of (websocket_to_player s) ws = None" and "get_available_id s = None"
  shows "add_player ws now s = (s, None)"
  using assms by (simp add: add_player_def)

lemma handshake_accept:
  assumes "map_of (websocket_to_player s) ws = None" and "get_available_id s = Some p"
    and "ws \<notin> unreachable (network s)"
  shows "snd (handshake ws now s) = Inr p"
    and "sessions (fst (handshake ws now s)) =
           AList.update p \<lparr>player_id = p, websocket = ws, connected_at = now,
             last_input_at = now\<rparr> (sessions s)"
    and "websocket_to_player (fst (handshake ws now s)) =
           AList.update ws p (websocket_to_player s)"
    and "network (fst (handshake ws now s)) =
           (network s)\<lparr>wire := wire (network s) @ [Sent ws (Msg_connected p)]\<rparr>"
    and "controllers (fst (handshake ws now s)) = controllers (on_player_connected p s)"
    and "vigem (fst (handshake ws now s)) = vigem (on_player_connected p s)"
  using assms
  by (simp_all add: handshake_def add_player_def send_def on_player_connected_def
      create_controller_def connect_def split: option.splits)

lemma handshake_reject:
  assumes "map_of (websocket_to_player s) ws = None" and "get_available_id s = None"
    and "ws \<notin> unreachable (network s)"
  shows "handshake ws now s =
     (s\<lparr>network := \<lparr>unreachable = insert ws (unreachable (network s)),
          wire = wire (network s) @
            [Sent ws (Msg_error ''Server is full (max 4 players)''), Closed ws]\<rparr>\<rparr>,
      Inl Rejected)"
  using assms by (simp add: handshake_def add_player_def send_def close_def)


lemma connect_all_Cons:
  "snd (connect_all (c # cs) s) =
     snd (handshake (fst c) (snd c) s) # snd (connect_all cs (fst (handshake (fst c) (snd c) s)))"
  "fst (connect_all (c # cs) s) = fst (connect_all cs (fst (handshake (fst c) (snd c) s)))"
  by (simp_all split: prod.splits)

lemma connect_all_from:
  assumes "fst ` set (sessions s) = {1..int k}" and "k \<le> 4" and "distinct (map fst cs)"
    and "fst ` set (websocket_to_player s) \<inter> fst ` set cs = {}"
    and "unreachable (network s) \<inter> fst ` set cs = {}"
  shows "snd (connect_all cs s) =
           map (\<lambda>i. if k + i < 4 then Inr (int (k + i) + 1) else Inl Rejected) [0..<length cs] \<and>
         fst ` set (sessions (fst (connect_all cs s))) = {1..int (min 4 (k + length cs))}"
  using assms
proof (induction cs arbitrary: s k)
  case Nil
  then show ?case by simp
next
  case (Cons c cs)
  let ?ws = "fst c" and ?now = "snd c"
  let ?s1 = "fst (handshake ?ws ?now s)"
  from Cons.prems have new: "map_of (websocket_to_player s) ?ws = None"
    by (auto simp: map_of_eq_None_iff)
  from Cons.prems have reach: "?ws \<notin> unreachable (network s)" by auto
  from Cons.prems have rest: "distinct (map fst cs)" "?ws \<notin> fst ` set cs" by auto
  have key: "map_of (sessions s) i = None \<longleftrightarrow> \<not> (1 \<le> i \<and> i \<le> int k)" for i
    using Cons.prems(1) by (auto simp: map_of_eq_None_iff)
  show ?case
  proof (cases "k < 4")
    case True
    have free: "get_available_id s = Some (int k + 1)"
      using True by (simp add: get_available_id_Some key MAX_PLAYERS_def)
    note h = handshake_accept [OF new free reach, of ?now]
    have 1: "fst ` set (sessions ?s1) = {1..int (Suc k)}"
      using Cons.prems(1) by (auto simp: h(2) AList.dom_update)
    have 2: "fst ` set (websocket_to_player ?s1) \<inter> fst ` set cs = {}"
      using Cons.prems(4) rest(2) by (auto simp: h(3) AList.dom_update)
    have 3: "unreachable (network ?s1) \<inter> fst ` set cs = {}"
      using Cons.prems(5) by (auto simp: h(4))
    from True have 4: "Suc k \<le> 4" by simp
    from Cons.IH [OF 1 4 rest(1) 2 3] True h(1) show ?thesis
      by (simp add: case_prod_beta comp_def upt_conv_Cons map_Suc_upt [symmetric] del: upt_Suc)
  next
    case False
    with Cons.prems(2) have k4: "k = 4" by simp
    have full: "get_available_id s = None"
      using k4 by (simp add: get_available_id_None key MAX_PLAYERS_def)
    note h = handshake_reject [OF new full reach, of ?now]
    have 1: "fst ` set (sessions ?s1) = {1..int k}"
      using Cons.prems(1) by (simp add: h)
    have 2: "fst ` set (websocket_to_player ?s1) \<inter> fst ` set cs = {}"
      using Cons.prems(4) by (auto simp: h)
    have 3: "unreachable (network ?s1) \<inter> fst ` set cs = {}"
      using Cons.prems(5) rest(2) by (auto simp: h)
    have r: "snd (handshake ?ws ?now s) = Inl Rejected" by (simp add: h)
    from Cons.IH [OF 1 Cons.prems(2) rest(1) 2 3] k4 r show ?thesis
      by (simp add: case_prod_beta comp_def upt_conv_Cons map_Suc_upt [symmetric] del: upt_Suc)
  qed
qed

text \<open>
  C1.  A connection that is not yet registered gets the least number in 1..4 that no
  session holds.  Connections arriving one after the other at a new server, all
  different and all reachable, get 1, 2, 3, 4 in this order, and every one after the
  fourth is turned away; the sessions are then those of players 1 up to the number of
  arrivals, at most 4.  Turning away means: with the four numbers taken, the handler
  sends the error frame, closes the connection and leaves the registry as it was.
\<close>

theorem connects_get_lowest_free_id:
  "(map_of (websocket_to_player s) ws = None \<longrightarrow>
      (snd (add_player ws now s) = Some p \<longleftrightarrow>
         1 \<le> p \<and> p \<le> MAX_PLAYERS \<and> map_of (sessions s) p = None \<and>
         (\<forall>i. 1 \<le> i \<and> i < p \<longrightarrow> map_of (sessions s) i \<noteq> None))) \<and>
   (distinct (map fst cs) \<and> unreachable net \<inter> fst ` set cs = {} \<longrightarrow>
      snd (connect_all cs (fresh bus net h)) =
        map (\<lambda>i. if i < 4 then Inr (int i + 1) else Inl Rejected) [0..<length cs] \<and>
      fst ` set (sessions (fst (connect_all cs (fresh bus net h)))) =
        {1..int (min 4 (length cs))}) \<and>
   (map_of (websocket_to_player s) ws = None \<and>
    (\<forall>i. 1 \<le> i \<and> i \<le> MAX_PLAYERS \<longrightarrow> map_of (sessions s) i \<noteq> None) \<and>
    ws \<notin> unreachable (network s) \<longrightarrow>
      handshake ws now s =
        (s\<lparr>network := \<lparr>unreachable = insert ws (unreachable (network s)),
             wire = wire (network s) @
               [Sent ws (Msg_error ''Server is full (max 4 players)''), Closed ws]\<rparr>\<rparr>,
         Inl Rejected))"
proof (intro conjI impI)
  assume "map_of (websocket_to_player s) ws = None"
  then have "snd (add_player ws now s) = get_available_id s"
    by (simp add: add_player_def split: option.splits)
  then show "snd (add_player ws now s) = Some p \<longleftrightarrow>
         1 \<le> p \<and> p \<le> MAX_PLAYERS \<and> map_of (sessions s) p = None \<and>
         (\<forall>i. 1 \<le> i \<and> i < p \<longrightarrow> map_of (sessions s) i \<noteq> None)"
    by (simp add: get_available_id_Some)
next
  assume a: "distinct (map fst cs) \<and> unreachable net \<inter> fst ` set cs = {}"
  have "fst ` set (sessions (fresh bus net h)) = {1..int 0}"
    "fst ` set (websocket_to_player (fresh bus net h)) \<inter> fst ` set cs = {}"
    "unreachable (network (fresh bus net h)) \<inter> fst ` set cs = {}"
    using a by (simp_all add: fresh_def)
  from connect_all_from [OF this(1) _ _ this(2,3)] a
  show "snd (connect_all cs (fresh bus net h)) =
        map (\<lambda>i. if i < 4 then Inr (int i + 1) else Inl Rejected) [0..<length cs]"
    and "fst ` set (sessions (fst (connect_all cs (fresh bus net h)))) =
        {1..int (min 4 (length cs))}"
    by simp_all
next
  assume "map_of (websocket_to_player s) ws = None \<and>
    (\<forall>i. 1 \<le> i \<and> i \<le> MAX_PLAYERS \<longrightarrow> map_of (sessions s) i \<noteq> None) \<and>
    ws \<notin> unreachable (network s)"
  then show "handshake ws now s =
        (s\<lparr>network := \<lparr>unreachable = insert ws (unreachable (network s)),
             wire = wire (network s) @
               [Sent ws (Msg_error ''Server is full (max 4 players)''), Closed ws]\<rparr>\<rparr>,
         Inl Rejected)"
    by (intro handshake_reject) (simp_all add: get_available_id_None)
qed

theorem connects_get_lowest_free_id_witness:
  "snd (add_player 7 0 world0) = Some 1 \<and>
   snd (connect_all [(10, 0), (20, 1), (30, 2), (40, 3), (50, 4)] world0) =
     [Inr 1, Inr 2, Inr 3, Inr 4, Inl Rejected] \<and>
   handshake 50 9 (world0\<lparr>sessions :=
       [(1, \<lparr>player_id = 1, websocket = 10, connected_at = 0, last_input_at = 0\<rparr>),
        (2, \<lparr>player_id = 2, websocket = 20, connected_at = 0, last_input_at = 0\<rparr>),
        (3, \<lparr>player_id = 3, websocket = 30, connected_at = 0, last_input_at = 0\<rparr>),
        (4, \<lparr>player_id = 4, websocket = 40, connected_at = 0, last_input_at = 0\<rparr>)],
       websocket_to_player := [(10, 1), (20, 2), (30, 3), (40, 4)]\<rparr>) =
     (world0\<lparr>sessions :=
       [(1, \<lparr>player_id = 1, websocket = 10, connected_at = 0, last_input_at = 0\<rparr>),
        (2, \<lparr>player_id = 2, websocket = 20, connected_at = 0, last_input_at = 0\<rparr>),
        (3, \<lparr>player_id = 3, websocket = 30, connected_at = 0, last_input_at = 0\<rparr>),
        (4, \<lparr>player_id = 4, websocket = 40, connected_at = 0, last_input_at = 0\<rparr>)],
       websocket_to_player := [(10, 1), (20, 2), (30, 3), (40, 4)],
       network := \<lparr>unreachable = {50},
         wire = [Sent 50 (Msg_error ''Server is full (max 4 players)''), Closed 50]\<rparr>\<rparr>,
      Inl Rejected)"
proof -
  let ?cs = "[(10, 0), (20, 1), (30, 2), (40, 3), (50, 4)] :: (websocket \<times> time) list"
  let ?s4 = "world0\<lparr>sessions :=
       [(1, \<lparr>player_id = 1, websocket = 10, connected_at = 0, last_input_at = 0\<rparr>),
        (2, \<lparr>player_id = 2, websocket = 20, connected_at = 0, last_input_at = 0\<rparr>),
        (3, \<lparr>player_id = 3, websocket = 30, connected_at = 0, last_input_at = 0\<rparr>),
        (4, \<lparr>player_id = 4, websocket = 40, connected_at = 0, last_input_at = 0\<rparr>)],
       websocket_to_player := [(10, 1), (20, 2), (30, 3), (40, 4)]\<rparr>"
  have a: "map_of (websocket_to_player world0) 7 = None"
    "1 \<le> (1::int) \<and> 1 \<le> MAX_PLAYERS \<and> map_of (sessions world0) 1 = None \<and>
       (\<forall>i. 1 \<le> i \<and> i < 1 \<longrightarrow> map_of (sessions world0) i \<noteq> None)"
    by (simp_all add: world0_def fresh_def MAX_PLAYERS_def)
  have b: "distinct (map fst ?cs) \<and> unreachable \<lparr>unreachable = {}, wire = []\<rparr> \<inter> fst ` set ?cs = {}"
    by simp
  have c: "map_of (websocket_to_player ?s4) 50 = None \<and>
    (\<forall>i. 1 \<le> i \<and> i \<le> MAX_PLAYERS \<longrightarrow> map_of (sessions ?s4) i \<noteq> None) \<and>
    50 \<notin> unreachable (network ?s4)"
  proof -
    have "i = 1 \<or> i = 2 \<or> i = 3 \<or> i = 4" if "1 \<le> i" "i \<le> 4" for i :: int
      using that by auto
    then show ?thesis by (auto simp: world0_def fresh_def MAX_PLAYERS_def)
  qed
  have 1: "snd (add_player 7 0 world0) = Some 1"
    using connects_get_lowest_free_id [of world0 7 0 1] a by blast
  have 2: "snd (connect_all ?cs world0) = [Inr 1, Inr 2, Inr 3, Inr 4, Inl Rejected]"
    using connects_get_lowest_free_id [of _ _ _ _ ?cs "\<lparr>unreachable = {}, wire = []\<rparr>"
        "\<lparr>bus_ok = True, bus_log = []\<rparr>" "\<lparr>down = {}, calls = [], refuses = (\<lambda>_. False)\<rparr>"] b
    by (simp add: world0_def)
  have 3: "handshake 50 9 ?s4 =
      (?s4\<lparr>network := \<lparr>unreachable = insert 50 (unreachable (network ?s4)),
             wire = wire (network ?s4) @
               [Sent 50 (Msg_error ''Server is full (max 4 players)''), Closed 50]\<rparr>\<rparr>,
       Inl Rejected)"
    using connects_get_lowest_free_id [of ?s4 50 9] c by blast
  have 4: "unreachable (network ?s4) = {}" "wire (network ?s4) = []"
    by (simp_all add: world0_def fresh_def)
  from 1 2 3 show ?thesis unfolding 4 by simp
qed

subsection \<open>What a message leaves alone\<close>

lemma update_activity_keeps [simp]:
  "websocket_to_player (update_activity p now s) = websocket_to_player s"
  "map fst (sessions (update_activity p now s)) = map fst (sessions s)"
  "vigem (update_activity p now s) = vigem s"
  "controllers (update_activity p now s) = controllers s"
  "network (update_activity p now s) = network s"
  "host (update_activity p now s) = host s"
  "mouse_keyboard_controller (update_activity p now s) = mouse_keyboard_controller s"
proof -
  show "map fst (sessions (update_activity p now s)) = map fst (sessions s)"
  proof (cases "map_of (sessions s) p")
    case None
    then show ?thesis by (simp add: update_activity_def)
  next
    case (Some session)
    then have "p \<in> fst ` set (sessions s)"
      by (auto dest!: map_of_SomeD intro: rev_image_eqI)
    with Some show ?thesis by (simp add: update_activity_def AList.update_keys)
  qed
qed (simp_all add: update_activity_def split: option.splits)

lemma update_state_keeps:
  "(gamepad (fst (update_state b t a c)) = None) = (gamepad c = None)"
  "vc_player_id (fst (update_state b t a c)) = vc_player_id c"
  by (auto simp: update_state_def Let_def split: option.splits json.splits sum.splits)

lemma steady_refl: "steady s s"
  by (simp add: steady_def)

lemma steady_trans: "steady s s1 \<Longrightarrow> steady s1 s2 \<Longrightarrow> steady s s2"
  by (simp add: steady_def)

lemma steady_update_activity: "steady s (update_activity p now s)"
  by (simp add: steady_def bound_def)

lemma steady_input: "steady s (fst (input_message p d now s))"
proof (cases "get_controller s p")
  case None
  then show ?thesis by (simp add: input_message_def steady_refl)
next
  case (Some c)
  let ?u = "update_state (dict_get d ''buttons'' (JObj []))
              (dict_get d ''triggers'' (JObj [])) (dict_get d ''axes'' (JObj [])) c"
  let ?s1 = "s\<lparr>controllers := AList.update p (fst ?u) (controllers s)\<rparr>"
  from Some have in_keys: "p \<in> set (map fst (controllers s))"
    by (auto simp: get_controller_def dest!: map_of_SomeD intro: rev_image_eqI)
  have "bound ?s1 q" if "bound s q" for q
    using that Some update_state_keeps [of "dict_get d ''buttons'' (JObj [])"
        "dict_get d ''triggers'' (JObj [])" "dict_get d ''axes'' (JObj [])" c]
    by (auto simp: bound_def get_controller_def AList.update_conv' split: option.splits)
  then have 1: "steady s ?s1"
    using in_keys by (simp add: steady_def AList.update_keys)
  have "fst (input_message p d now s) = ?s1 \<or>
        fst (input_message p d now s) = update_activity p now ?s1"
    using Some by (simp add: input_message_def split: prod.splits option.splits)
  with 1 steady_trans [OF 1 steady_update_activity] show ?thesis by auto
qed

lemma steady_mouse: "steady s (fst (mouse_message p d now s))"
  by (auto simp: mouse_message_def get_mouse_keyboard_controller_def put_mouse_def
      put_sink_def sink_def Let_def steady_def bound_def split: option.splits)

lemma steady_keyboard: "steady s (fst (keyboard_message p d now s))"
  by (auto simp: keyboard_message_def get_mouse_keyboard_controller_def
      put_sink_def sink_def Let_def steady_def bound_def split: option.splits)

lemma steady_ping: "steady s (fst (ping_message p s))"
  by (auto simp: ping_message_def steady_def bound_def split: option.splits prod.splits)

lemma steady_disconnect: "steady s (fst (disconnect_message p s))"
  by (auto simp: disconnect_message_def steady_def bound_def split: option.splits)

lemma steady_process_message: "steady s (process_message p f now s)"
  by (auto simp: process_message_def dispatch_def Let_def steady_refl steady_input
      steady_mouse steady_keyboard steady_ping steady_disconnect
      split: frame.splits json.splits)

lemma steady_receive_loop: "steady s (receive_loop p frames s)"
  unfolding receive_loop_def
proof (induction frames arbitrary: s)
  case Nil
  show ?case by (simp add: steady_refl)
next
  case (Cons tf frames)
  from steady_trans [OF steady_process_message Cons.IH] show ?case by simp
qed

subsection \<open>The end of a connection\<close>

lemma remove_controller_bound:
  assumes "bound s p"
  shows "controllers (remove_controller p s) = AList.delete p (controllers s)"
    and "bus_log (vigem (remove_controller p s)) = bus_log (vigem s) @ [Unplugged p]"
    and "bus_ok (vigem (remove_controller p s)) = bus_ok (vigem s)"
  using assms
  by (auto simp: bound_def remove_controller_def disconnect_def split: option.splits)

lemma remove_player_registered:
  assumes "registered s ws p"
  shows "snd (remove_player ws s) = Inr (Some p)"
    and "websocket_to_player (fst (remove_player ws s)) = AList.delete ws (websocket_to_player s)"
    and "sessions (fst (remove_player ws s)) = AList.delete p (sessions s)"
    and "controllers (fst (remove_player ws s)) = controllers (remove_controller p s)"
    and "vigem (fst (remove_player ws s)) = vigem (remove_controller p s)"
  using assms
  by (auto simp: registered_def remove_player_def on_player_disconnected_def Let_def
      remove_controller_def split: option.splits)

lemma length_removeAll_distinct:
  "distinct xs \<Longrightarrow> x \<in> set xs \<Longrightarrow> length (removeAll x xs) + 1 = length xs"
  by (induction xs) auto

lemma in_keys_iff: "map_of al k \<noteq> None \<longleftrightarrow> k \<in> set (map fst al)"
  by (simp add: map_of_eq_None_iff)

lemma steady_registered: "steady s s' \<Longrightarrow> registered s ws p \<Longrightarrow> registered s' ws p"
  unfolding steady_def registered_def in_keys_iff by simp

lemma free_slot_reused:
  assumes "map_of (sessions s) p = None" and "1 \<le> p" and "p \<le> MAX_PLAYERS"
  shows "\<exists>q. get_available_id s = Some q \<and> q \<le> p"
proof (cases "get_available_id s")
  case None
  then have "\<forall>i. 1 \<le> i \<and> i \<le> MAX_PLAYERS \<longrightarrow> map_of (sessions s) i \<noteq> None"
    by (simp only: get_available_id_None)
  with assms show ?thesis by blast
next
  case (Some q)
  then have "\<forall>i. 1 \<le> i \<and> i < q \<longrightarrow> map_of (sessions s) i \<noteq> None"
    by (simp add: get_available_id_Some)
  with assms have "\<not> p < q" by blast
  with Some show ?thesis by simp
qed

lemma cleanup:
  assumes "registered s ws p" and "bound s p"
  shows "\<exists>s'. serve ws p frames ending s = (s', Served ending) \<and>
     map_of (websocket_to_player s') ws = None \<and>
     map_of (sessions s') p = None \<and>
     map fst (sessions s') = removeAll p (map fst (sessions s)) \<and>
     (distinct (map fst (sessions s)) \<longrightarrow> get_player_count s' + 1 = get_player_count s) \<and>
     map_of (controllers s') p = None \<and>
     map fst (controllers s') = removeAll p (map fst (controllers s)) \<and>
     bus_log (vigem s') = bus_log (vigem s) @ [Unplugged p] \<and>
     (1 \<le> p \<and> p \<le> MAX_PLAYERS \<longrightarrow> (\<exists>q. get_available_id s' = Some q \<and> q \<le> p))"
proof -
  let ?s2 = "receive_loop p frames s"
  let ?s' = "fst (remove_player ws ?s2)"
  have st: "steady s ?s2" by (rule steady_receive_loop)
  then have reg: "registered ?s2 ws p" using assms(1) by (rule steady_registered)
  from st assms(2) have bnd: "bound ?s2 p" by (simp add: steady_def)
  from st have same: "map fst (sessions ?s2) = map fst (sessions s)"
    "map fst (controllers ?s2) = map fst (controllers s)" "vigem ?s2 = vigem s"
    by (simp_all add: steady_def)
  note rp = remove_player_registered [OF reg]
  note rc = remove_controller_bound [OF bnd]
  have 1: "serve ws p frames ending s = (?s', Served ending)"
    using rp(1) by (cases "remove_player ws ?s2") (simp add: serve_def)
  have 2: "map_of (websocket_to_player ?s') ws = None"
    by (simp add: rp(2) AList.delete_conv')
  have 3: "map_of (sessions ?s') p = None"
    by (simp add: rp(3) AList.delete_conv')
  have 4: "map fst (sessions ?s') = removeAll p (map fst (sessions s))"
    by (simp add: rp(3) AList.delete_keys same(1))
  from assms(1) have "p \<in> set (map fst (sessions s))"
    unfolding registered_def in_keys_iff by simp
  then have 5: "distinct (map fst (sessions s)) \<longrightarrow> get_player_count ?s' + 1 = get_player_count s"
    using length_removeAll_distinct [of "map fst (sessions s)" p] 4
    by (metis get_player_count_def length_map)
  have 6: "map_of (controllers ?s') p = None"
    by (simp add: rp(4) rc(1) AList.delete_conv')
  have 7: "map fst (controllers ?s') = removeAll p (map fst (controllers s))"
    by (simp add: rp(4) rc(1) AList.delete_keys same(2))
  have 8: "bus_log (vigem ?s') = bus_log (vigem s) @ [Unplugged p]"
    by (simp add: rp(5) rc(2) same(3))
  have 9: "1 \<le> p \<and> p \<le> MAX_PLAYERS \<longrightarrow> (\<exists>q. get_available_id ?s' = Some q \<and> q \<le> p)"
    using free_slot_reused [OF 3] by blast
  from 1 2 3 4 5 6 7 8 9 show ?thesis by blast
qed

lemma handshake_establishes:
  assumes "map_of (websocket_to_player s) ws = None" and "get_available_id s = Some p"
    and "ws \<notin> unreachable (network s)" and "bus_ok (vigem s)"
    and "map_of (controllers s) p = None"
  shows "snd (handshake ws now s) = Inr p"
    and "registered (fst (handshake ws now s)) ws p"
    and "bound (fst (handshake ws now s)) p"
    and "bus_log (vigem (fst (handshake ws now s))) = bus_log (vigem s) @ [Plugged p]"
proof -
  note h = handshake_accept [OF assms(1-3), of now]
  from assms(2) have r: "1 \<le> p" "p \<le> MAX_PLAYERS" by (simp_all add: get_available_id_Some)
  show "snd (handshake ws now s) = Inr p" by (rule h(1))
  show "registered (fst (handshake ws now s)) ws p"
    by (simp add: registered_def h(2,3) AList.update_conv')
  show "bound (fst (handshake ws now s)) p"
    using assms(4,5) r
    by (simp add: bound_def h(5) on_player_connected_def create_controller_def connect_def
        new_controller_def MAX_PLAYERS_def MAX_CONTROLLERS_def AList.update_conv')
  show "bus_log (vigem (fst (handshake ws now s))) = bus_log (vigem s) @ [Plugged p]"
    using assms(4,5) r
    by (simp add: h(6) on_player_connected_def create_controller_def connect_def
        new_controller_def MAX_PLAYERS_def MAX_CONTROLLERS_def)
qed

text \<open>
  C3.  Take a connection that holds the session of player \<open>p\<close>, with a live gamepad
  for \<open>p\<close>: the state a handshake that went through leaves behind.  Whatever frames
  arrive and however the loop stops, \<open>handle_client\<close> comes to its \<open>finally\<close> and
  returns normally; afterwards the connection and the session of \<open>p\<close> are gone and no
  other session is (with distinct keys the count drops by one), the controller of \<open>p\<close>
  is gone and no other is, the bus has seen one more event, the unplugging of the
  device of \<open>p\<close>, and the next number handed out is at most \<open>p\<close>.  The second part
  is the whole of \<open>handle_client\<close> from a state where \<open>p\<close> is the free number and
  the bus works: one device plugged, one unplugged, and \<open>p\<close> is the free number again.
\<close>

theorem cleanup_always_runs:
  "(registered s ws p \<and> bound s p \<longrightarrow>
     (\<exists>s'. serve ws p frames ending s = (s', Served ending) \<and>
        map_of (websocket_to_player s') ws = None \<and>
        map_of (sessions s') p = None \<and>
        map fst (sessions s') = removeAll p (map fst (sessions s)) \<and>
        (distinct (map fst (sessions s)) \<longrightarrow> get_player_count s' + 1 = get_player_count s) \<and>
        map_of (controllers s') p = None \<and>
        map fst (controllers s') = removeAll p (map fst (controllers s)) \<and>
        bus_log (vigem s') = bus_log (vigem s) @ [Unplugged p] \<and>
        (1 \<le> p \<and> p \<le> MAX_PLAYERS \<longrightarrow> (\<exists>q. get_available_id s' = Some q \<and> q \<le> p)))) \<and>
   (map_of (websocket_to_player s) ws = None \<and> get_available_id s = Some p \<and>
    ws \<notin> unreachable (network s) \<and> bus_ok (vigem s) \<and> map_of (controllers s) p = None \<longrightarrow>
     (\<exists>s'. handle_client ws now frames ending s = (s', Served ending) \<and>
        map_of (websocket_to_player s') ws = None \<and>
        map_of (sessions s') p = None \<and>
        get_available_id s' = Some p \<and>
        map_of (controllers s') p = None \<and>
        bus_log (vigem s') = bus_log (vigem s) @ [Plugged p, Unplugged p]))"
proof (intro conjI impI)
  assume "registered s ws p \<and> bound s p"
  then show "\<exists>s'. serve ws p frames ending s = (s', Served ending) \<and>
        map_of (websocket_to_player s') ws = None \<and>
        map_of (sessions s') p = None \<and>
        map fst (sessions s') = removeAll p (map fst (sessions s)) \<and>
        (distinct (map fst (sessions s)) \<longrightarrow> get_player_count s' + 1 = get_player_count s) \<and>
        map_of (controllers s') p = None \<and>
        map fst (controllers s') = removeAll p (map fst (controllers s)) \<and>
        bus_log (vigem s') = bus_log (vigem s) @ [Unplugged p] \<and>
        (1 \<le> p \<and> p \<le> MAX_PLAYERS \<longrightarrow> (\<exists>q. get_available_id s' = Some q \<and> q \<le> p))"
    using cleanup by blast
next
  assume a: "map_of (websocket_to_player s) ws = None \<and> get_available_id s = Some p \<and>
    ws \<notin> unreachable (network s) \<and> bus_ok (vigem s) \<and> map_of (controllers s) p = None"
  let ?s1 = "fst (handshake ws now s)"
  from a have h: "snd (handshake ws now s) = Inr p" "registered ?s1 ws p" "bound ?s1 p"
    "bus_log (vigem ?s1) = bus_log (vigem s) @ [Plugged p]"
    using handshake_establishes [of s ws p now] by simp_all
  from a have free: "map_of (sessions s) p = None" "1 \<le> p" "p \<le> MAX_PLAYERS"
    and low: "\<forall>i. 1 \<le> i \<and> i < p \<longrightarrow> map_of (sessions s) i \<noteq> None"
    by (simp_all add: get_available_id_Some)
  from cleanup [OF h(2,3), of frames ending] obtain s' where s':
    "serve ws p frames ending ?s1 = (s', Served ending)"
    "map_of (websocket_to_player s') ws = None" "map_of (sessions s') p = None"
    "map fst (sessions s') = removeAll p (map fst (sessions ?s1))"
    "map_of (controllers s') p = None"
    "bus_log (vigem s') = bus_log (vigem ?s1) @ [Unplugged p]"
    by blast
  have hc: "handle_client ws now frames ending s = (s', Served ending)"
    using h(1) s'(1) by (cases "handshake ws now s") (simp add: handle_client_def)
  have keys1: "fst ` set (sessions ?s1) = insert p (fst ` set (sessions s))"
    using a handshake_accept(2) [of s ws p now] by (auto simp: AList.dom_update)
  have "set (map fst (sessions s')) = set (map fst (sessions s))"
    using free(1) unfolding s'(4) by (simp add: keys1 map_of_eq_None_iff)
  then have same: "map_of (sessions s') i = None \<longleftrightarrow> map_of (sessions s) i = None" for i
    by (simp add: map_of_eq_None_iff)
  have "get_available_id s' = Some p"
    using free low by (simp add: get_available_id_Some same)
  with hc s'(2,3,5,6) h(4) show "\<exists>s'. handle_client ws now frames ending s = (s', Served ending) \<and>
        map_of (websocket_to_player s') ws = None \<and>
        map_of (sessions s') p = None \<and>
        get_available_id s' = Some p \<and>
        map_of (controllers s') p = None \<and>
        bus_log (vigem s') = bus_log (vigem s) @ [Plugged p, Unplugged p]"
    by simp
qed

theorem cleanup_always_runs_witness:
  "registered (fst (handshake 10 0 world0)) 10 1 \<and> bound (fst (handshake 10 0 world0)) 1 \<and>
   (\<exists>s'. serve 10 1 [(1, Parsed (JObj [(''type'', JStr ''ping'')])), (2, Invalid_JSON)]
            Connection_closed (fst (handshake 10 0 world0)) = (s', Served Connection_closed) \<and>
         map_of (websocket_to_player s') 10 = None \<and> map_of (sessions s') 1 = None \<and>
         map_of (controllers s') 1 = None \<and> bus_log (vigem s') = [Plugged 1, Unplugged 1]) \<and>
   (\<exists>s'. handle_client 10 0 [(1, Parsed (JObj [(''type'', JStr ''ping'')])), (2, Invalid_JSON)]
            Other_exception world0 = (s', Served Other_exception) \<and>
         map_of (sessions s') 1 = None \<and> get_available_id s' = Some 1 \<and>
         bus_log (vigem s') = [Plugged 1, Unplugged 1])"
proof -
  let ?fs = "[(1, Parsed (JObj [(''type'', JStr ''ping'')])), (2, Invalid_JSON)]"
  let ?s1 = "fst (handshake 10 0 world0)"
  have pre: "map_of (websocket_to_player world0) 10 = None \<and> get_available_id world0 = Some 1 \<and>
    10 \<notin> unreachable (network world0) \<and> bus_ok (vigem world0) \<and>
    map_of (controllers world0) 1 = None"
    by (simp add: world0_def fresh_def get_available_id_def upto_MAX_PLAYERS)
  have log0: "bus_log (vigem world0) = []" by (simp add: world0_def fresh_def)
  from pre have est: "registered ?s1 10 1" "bound ?s1 1"
    "bus_log (vigem ?s1) = bus_log (vigem world0) @ [Plugged 1]"
    using handshake_establishes [of world0 10 1 0] by simp_all
  from cleanup_always_runs [of ?s1 10 1 ?fs Connection_closed] est(1,2)
  obtain s' where a: "serve 10 1 ?fs Connection_closed ?s1 = (s', Served Connection_closed)"
    "map_of (websocket_to_player s') 10 = None" "map_of (sessions s') 1 = None"
    "map_of (controllers s') 1 = None" "bus_log (vigem s') = bus_log (vigem ?s1) @ [Unplugged 1]"
    by blast
  from cleanup_always_runs [of world0 10 1 ?fs Other_exception 0] pre
  obtain s'' where b: "handle_client 10 0 ?fs Other_exception world0 = (s'', Served Other_exception)"
    "map_of (sessions s'') 1 = None" "get_available_id s'' = Some 1"
    "bus_log (vigem s'') = bus_log (vigem world0) @ [Plugged 1, Unplugged 1]"
    by blast
  from est a b log0 show ?thesis by simp
qed

subsection \<open>A device that cannot be made\<close>

lemma handshake_unbound:
  assumes "map_of (websocket_to_player s) ws = None" and "get_available_id s = Some p"
    and "ws \<notin> unreachable (network s)" and "\<not> bus_ok (vigem s)"
    and "map_of (controllers s) p = None"
  shows "controllers (fst (handshake ws now s)) = controllers s"
    and "vigem (fst (handshake ws now s)) = vigem s"
proof -
  note h = handshake_accept [OF assms(1-3), of now]
  from assms(2) have r: "1 \<le> p" "p \<le> MAX_PLAYERS" by (simp_all add: get_available_id_Some)
  show "controllers (fst (handshake ws now s)) = controllers s"
    using assms(4,5) r
    by (simp add: h(5) on_player_connected_def create_controller_def connect_def
        MAX_PLAYERS_def MAX_CONTROLLERS_def)
  show "vigem (fst (handshake ws now s)) = vigem s"
    using assms(4,5) r
    by (simp add: h(6) on_player_connected_def create_controller_def connect_def
        MAX_PLAYERS_def MAX_CONTROLLERS_def)
qed

text \<open>
  C2, as the code has it.  When the bus cannot hand out a device for a new connection,
  nothing is undone and nothing is said to the peer about it: the session stays
  registered with no controller, the welcome frame is what goes out, the connection is
  not closed, and the \<open>input\<close> messages of that player change nothing.
\<close>

theorem failed_binding_keeps_session:
  "map_of (websocket_to_player s) ws = None \<and> get_available_id s = Some p \<and>
   ws \<notin> unreachable (network s) \<and> \<not> bus_ok (vigem s) \<and> map_of (controllers s) p = None \<longrightarrow>
     snd (handshake ws now s) = Inr p \<and>
     registered (fst (handshake ws now s)) ws p \<and>
     get_session (fst (handshake ws now s)) p =
       Some \<lparr>player_id = p, websocket = ws, connected_at = now, last_input_at = now\<rparr> \<and>
     get_controller (fst (handshake ws now s)) p = None \<and>
     network (fst (handshake ws now s)) =
       (network s)\<lparr>wire := wire (network s) @ [Sent ws (Msg_connected p)]\<rparr> \<and>
     (\<forall>d t. dict_get d ''type'' (JStr []) = JStr ''input'' \<longrightarrow>
        process_message p (Parsed (JObj d)) t (fst (handshake ws now s)) =
          fst (handshake ws now s))"
proof
  assume a: "map_of (websocket_to_player s) ws = None \<and> get_available_id s = Some p \<and>
   ws \<notin> unreachable (network s) \<and> \<not> bus_ok (vigem s) \<and> map_of (controllers s) p = None"
  let ?s1 = "fst (handshake ws now s)"
  from a have h: "snd (handshake ws now s) = Inr p"
    "sessions ?s1 = AList.update p \<lparr>player_id = p, websocket = ws, connected_at = now,
             last_input_at = now\<rparr> (sessions s)"
    "websocket_to_player ?s1 = AList.update ws p (websocket_to_player s)"
    "network ?s1 = (network s)\<lparr>wire := wire (network s) @ [Sent ws (Msg_connected p)]\<rparr>"
    using handshake_accept [of s ws p now] by simp_all
  from a have u: "controllers ?s1 = controllers s"
    using handshake_unbound [of s ws p now] by simp
  have none: "get_controller ?s1 p = None"
    using a u by (simp add: get_controller_def)
  have inp: "process_message p (Parsed (JObj d)) t ?s1 = ?s1"
    if "dict_get d ''type'' (JStr []) = JStr ''input''" for d t
    using that none by (simp add: process_message_def dispatch_def input_message_def)
  show "snd (handshake ws now s) = Inr p \<and>
     registered ?s1 ws p \<and>
     get_session ?s1 p =
       Some \<lparr>player_id = p, websocket = ws, connected_at = now, last_input_at = now\<rparr> \<and>
     get_controller ?s1 p = None \<and>
     network ?s1 = (network s)\<lparr>wire := wire (network s) @ [Sent ws (Msg_connected p)]\<rparr> \<and>
     (\<forall>d t. dict_get d ''type'' (JStr []) = JStr ''input'' \<longrightarrow>
        process_message p (Parsed (JObj d)) t ?s1 = ?s1)"
    using h(1,4) none inp
    by (simp add: registered_def get_session_def h(2,3) AList.update_conv')
qed

theorem failed_binding_keeps_session_witness:
  "snd (handshake 10 0 (world0\<lparr>vigem := \<lparr>bus_ok = False, bus_log = []\<rparr>\<rparr>)) = Inr 1 \<and>
   registered (fst (handshake 10 0 (world0\<lparr>vigem := \<lparr>bus_ok = False, bus_log = []\<rparr>\<rparr>))) 10 1 \<and>
   get_controller (fst (handshake 10 0 (world0\<lparr>vigem := \<lparr>bus_ok = False, bus_log = []\<rparr>\<rparr>))) 1
     = None \<and>
   process_message 1 (Parsed (JObj [(''type'', JStr ''input''), (''buttons'', JObj [(''a'', JBool True)])]))
     3 (fst (handshake 10 0 (world0\<lparr>vigem := \<lparr>bus_ok = False, bus_log = []\<rparr>\<rparr>)))
     = fst (handshake 10 0 (world0\<lparr>vigem := \<lparr>bus_ok = False, bus_log = []\<rparr>\<rparr>))"
proof -
  let ?w = "world0\<lparr>vigem := \<lparr>bus_ok = False, bus_log = []\<rparr>\<rparr>"
  let ?d = "[(''type'', JStr ''input''), (''buttons'', JObj [(''a'', JBool True)])]"
  have pre: "map_of (websocket_to_player ?w) 10 = None \<and> get_available_id ?w = Some 1 \<and>
    10 \<notin> unreachable (network ?w) \<and> \<not> bus_ok (vigem ?w) \<and> map_of (controllers ?w) 1 = None"
    by (simp add: world0_def fresh_def get_available_id_def upto_MAX_PLAYERS)
  have ty: "dict_get ?d ''type'' (JStr []) = JStr ''input''" by (simp add: dict_get_def)
  from failed_binding_keeps_session [of ?w 10 1 0] pre
  have "snd (handshake 10 0 ?w) = Inr 1" "registered (fst (handshake 10 0 ?w)) 10 1"
    "get_controller (fst (handshake 10 0 ?w)) 1 = None"
    "\<forall>d t. dict_get d ''type'' (JStr []) = JStr ''input'' \<longrightarrow>
        process_message 1 (Parsed (JObj d)) t (fst (handshake 10 0 ?w)) = fst (handshake 10 0 ?w)"
    by blast+
  with ty show ?thesis by blast
qed

text \<open>
  C2 as stated fails: on a new server whose bus refuses, the connection 10 is welcomed
  as player 1, holds a session and has no controller; no error frame is on the wire and
  the connection is not closed.
\<close>

theorem failed_binding_error_frame_counterexample:
  "snd (handshake 10 0 (world0\<lparr>vigem := \<lparr>bus_ok = False, bus_log = []\<rparr>\<rparr>)) = Inr 1 \<and>
   get_controller (fst (handshake 10 0 (world0\<lparr>vigem := \<lparr>bus_ok = False, bus_log = []\<rparr>\<rparr>))) 1
     = None \<and>
   get_session (fst (handshake 10 0 (world0\<lparr>vigem := \<lparr>bus_ok = False, bus_log = []\<rparr>\<rparr>))) 1
     = Some \<lparr>player_id = 1, websocket = 10, connected_at = 0, last_input_at = 0\<rparr> \<and>
   get_player_id (fst (handshake 10 0 (world0\<lparr>vigem := \<lparr>bus_ok = False, bus_log = []\<rparr>\<rparr>))) 10
     = Some 1 \<and>
   network (fst (handshake 10 0 (world0\<lparr>vigem := \<lparr>bus_ok = False, bus_log = []\<rparr>\<rparr>)))
     = \<lparr>unreachable = {}, wire = [Sent 10 (Msg_connected 1)]\<rparr>"
  by (simp add: handshake_def add_player_def get_available_id_def upto_MAX_PLAYERS
      on_player_connected_def create_controller_def connect_def new_controller_def
      MAX_CONTROLLERS_def send_def world0_def fresh_def get_controller_def get_session_def
      get_player_id_def)

subsection \<open>The activity timestamp\<close>

lemma update_state_raise:
  assumes "update_state b t a c = (c', Some e)"
  shows "map_option device (gamepad c') = map_option device (gamepad c)"
proof -
  have t: "device g2 = device g1" if "set_triggers ts g1 = Inr g2" for ts g1 g2
    using set_triggers_Inr [OF that] by auto
  show ?thesis
    using assms foldl_apply_button_rest t
    by (auto simp: update_state_def Let_def
        split: option.splits json.splits sum.splits if_splits)
qed

lemma map_update_same:
  "map_of al k = Some v \<Longrightarrow> f v' = f v \<Longrightarrow>
   map (\<lambda>kv. (fst kv, f (snd kv))) (AList.update k v' al) = map (\<lambda>kv. (fst kv, f (snd kv))) al"
  by (induction al) (auto split: if_splits)

lemma get_session_update_activity:
  "get_session s p = Some session \<Longrightarrow>
   get_session (update_activity p now s) p = Some (session\<lparr>last_input_at := now\<rparr>)"
  by (simp add: get_session_def update_activity_def AList.update_conv')

lemma update_activity_sessions_cong:
  "sessions x = sessions s \<Longrightarrow> sessions (update_activity p now x) = sessions (update_activity p now s)"
  by (simp add: update_activity_def split: option.splits)

lemma input_message_effect:
  assumes "get_controller s p \<noteq> None"
  shows "snd (input_message p d now s) = None \<Longrightarrow>
           sessions (fst (input_message p d now s)) = sessions (update_activity p now s)"
    and "snd (input_message p d now s) \<noteq> None \<Longrightarrow>
           sessions (fst (input_message p d now s)) = sessions s \<and>
           shown (fst (input_message p d now s)) = shown s"
proof -
  from assms obtain c where c: "get_controller s p = Some c" by auto
  let ?u = "update_state (dict_get d ''buttons'' (JObj []))
              (dict_get d ''triggers'' (JObj [])) (dict_get d ''axes'' (JObj [])) c"
  let ?s1 = "s\<lparr>controllers := AList.update p (fst ?u) (controllers s)\<rparr>"
  show "sessions (fst (input_message p d now s)) = sessions (update_activity p now s)"
    if "snd (input_message p d now s) = None"
    using that c
    by (cases ?u) (auto simp: input_message_def intro: update_activity_sessions_cong
        split: option.splits)
  show "sessions (fst (input_message p d now s)) = sessions s \<and>
        shown (fst (input_message p d now s)) = shown s"
    if "snd (input_message p d now s) \<noteq> None"
  proof (cases ?u)
    case (Pair c' r)
    with that c obtain e where e: "?u = (c', Some e)" "fst (input_message p d now s) = ?s1"
      by (cases r) (auto simp: input_message_def)
    from c have "map_of (controllers s) p = Some c" by (simp add: get_controller_def)
    from map_update_same [where f = "\<lambda>c. map_option device (gamepad c)", OF this
        update_state_raise [OF e(1)]] Pair
    have "shown ?s1 = shown s"
      unfolding shown_def by simp
    with e(2) show ?thesis by simp
  qed
qed

lemma sink_message_effect:
  "sessions (fst (mouse_message p d now s)) =
     (if snd (mouse_message p d now s) = None then sessions (update_activity p now s)
      else sessions s)"
  "controllers (fst (mouse_message p d now s)) = controllers s"
  "sessions (fst (keyboard_message p d now s)) =
     (if snd (keyboard_message p d now s) = None then sessions (update_activity p now s)
      else sessions s)"
  "controllers (fst (keyboard_message p d now s)) = controllers s"
  by (auto simp: mouse_message_def keyboard_message_def get_mouse_keyboard_controller_def
      put_mouse_def put_sink_def sink_def Let_def
      intro!: update_activity_sessions_cong split: option.splits)

lemma reply_message_effect:
  "sessions (fst (ping_message p s)) = sessions s"
  "controllers (fst (ping_message p s)) = controllers s"
  "sessions (fst (disconnect_message p s)) = sessions s"
  "controllers (fst (disconnect_message p s)) = controllers s"
  by (auto simp: ping_message_def disconnect_message_def split: option.splits prod.splits)

text \<open>
  C5, as the code has it.  A \<open>mouse\<close> or \<open>keyboard\<close> message, and an \<open>input\<close>
  message for a player who has a controller, sets the \<open>last_input_at\<close> of the session
  to the current time when its branch runs to the end without an exception.  A \<open>ping\<close>
  or \<open>disconnect\<close> message leaves every session and every controller as it was.  A
  message of any other type, and a frame that is not JSON, leave the whole state as it
  was.  A message whose handling raises leaves every session and what every device
  shows as they were.
\<close>

theorem activity_timestamp:
  "((dict_get d ''type'' (JStr []) = JStr ''mouse'' \<or>
     dict_get d ''type'' (JStr []) = JStr ''keyboard'' \<or>
     (dict_get d ''type'' (JStr []) = JStr ''input'' \<and> get_controller s p \<noteq> None)) \<and>
    snd (dispatch p (JObj d) now s) = None \<and> get_session s p = Some session \<longrightarrow>
      get_session (process_message p (Parsed (JObj d)) now s) p =
        Some (session\<lparr>last_input_at := now\<rparr>)) \<and>
   (dict_get d ''type'' (JStr []) = JStr ''ping'' \<or>
    dict_get d ''type'' (JStr []) = JStr ''disconnect'' \<longrightarrow>
      sessions (process_message p (Parsed (JObj d)) now s) = sessions s \<and>
      controllers (process_message p (Parsed (JObj d)) now s) = controllers s) \<and>
   (dict_get d ''type'' (JStr []) \<notin>
      {JStr ''input'', JStr ''mouse'', JStr ''keyboard'', JStr ''ping'', JStr ''disconnect''} \<longrightarrow>
      process_message p (Parsed (JObj d)) now s = s) \<and>
   process_message p Invalid_JSON now s = s \<and>
   (snd (dispatch p data now s) \<noteq> None \<longrightarrow>
      sessions (process_message p (Parsed data) now s) = sessions s \<and>
      shown (process_message p (Parsed data) now s) = shown s)"
proof (intro conjI impI)
  assume a: "(dict_get d ''type'' (JStr []) = JStr ''mouse'' \<or>
     dict_get d ''type'' (JStr []) = JStr ''keyboard'' \<or>
     (dict_get d ''type'' (JStr []) = JStr ''input'' \<and> get_controller s p \<noteq> None)) \<and>
    snd (dispatch p (JObj d) now s) = None \<and> get_session s p = Some session"
  then have "sessions (process_message p (Parsed (JObj d)) now s) =
      sessions (update_activity p now s)"
    using input_message_effect(1) [of s p d now]
    by (auto simp: process_message_def dispatch_def sink_message_effect)
  then have "get_session (process_message p (Parsed (JObj d)) now s) p =
      get_session (update_activity p now s) p"
    by (simp add: get_session_def)
  with a show "get_session (process_message p (Parsed (JObj d)) now s) p =
        Some (session\<lparr>last_input_at := now\<rparr>)"
    by (simp add: get_session_update_activity)
next
  assume "dict_get d ''type'' (JStr []) = JStr ''ping'' \<or>
    dict_get d ''type'' (JStr []) = JStr ''disconnect''"
  then show "sessions (process_message p (Parsed (JObj d)) now s) = sessions s"
    and "controllers (process_message p (Parsed (JObj d)) now s) = controllers s"
    by (auto simp: process_message_def dispatch_def reply_message_effect)
next
  assume "dict_get d ''type'' (JStr []) \<notin>
      {JStr ''input'', JStr ''mouse'', JStr ''keyboard'', JStr ''ping'', JStr ''disconnect''}"
  then show "process_message p (Parsed (JObj d)) now s = s"
    by (simp add: process_message_def dispatch_def)
next
  show "process_message p Invalid_JSON now s = s"
    by (simp add: process_message_def)
next
  assume r: "snd (dispatch p data now s) \<noteq> None"
  have "sessions (fst (dispatch p data now s)) = sessions s \<and>
        shown (fst (dispatch p data now s)) = shown s"
  proof (cases data)
    case (JObj d)
    show ?thesis
    proof (cases "get_controller s p")
      case None
      with r JObj show ?thesis
        by (auto simp: dispatch_def Let_def input_message_def sink_message_effect
            reply_message_effect shown_def split: if_splits)
    next
      case (Some c)
      then have "get_controller s p \<noteq> None" by simp
      from input_message_effect(2) [OF this] r JObj show ?thesis
        by (auto simp: dispatch_def Let_def sink_message_effect
            reply_message_effect shown_def split: if_splits)
    qed
  qed (simp_all add: dispatch_def)
  then show "sessions (process_message p (Parsed data) now s) = sessions s"
    and "shown (process_message p (Parsed data) now s) = shown s"
    by (simp_all add: process_message_def)
qed

theorem activity_timestamp_witness:
  "get_session (process_message 1
      (Parsed (JObj [(''type'', JStr ''mouse''), (''action'', JStr ''press'')])) 5
      (world0\<lparr>sessions :=
         [(1, \<lparr>player_id = 1, websocket = 10, connected_at = 0, last_input_at = 0\<rparr>)],
         websocket_to_player := [(10, 1)]\<rparr>)) 1 =
     Some \<lparr>player_id = 1, websocket = 10, connected_at = 0, last_input_at = 5\<rparr> \<and>
   sessions (process_message 1 (Parsed (JObj [(''type'', JStr ''ping'')])) 5
      (world0\<lparr>sessions :=
         [(1, \<lparr>player_id = 1, websocket = 10, connected_at = 0, last_input_at = 0\<rparr>)],
         websocket_to_player := [(10, 1)]\<rparr>)) =
     [(1, \<lparr>player_id = 1, websocket = 10, connected_at = 0, last_input_at = 0\<rparr>)] \<and>
   process_message 1 (Parsed (JObj [(''type'', JStr ''jump'')])) 5 world0 = world0 \<and>
   sessions (process_message 1 (Parsed (JArr [])) 5
      (world0\<lparr>sessions :=
         [(1, \<lparr>player_id = 1, websocket = 10, connected_at = 0, last_input_at = 0\<rparr>)],
         websocket_to_player := [(10, 1)]\<rparr>)) =
     [(1, \<lparr>player_id = 1, websocket = 10, connected_at = 0, last_input_at = 0\<rparr>)]"
proof -
  let ?s = "world0\<lparr>sessions :=
         [(1, \<lparr>player_id = 1, websocket = 10, connected_at = 0, last_input_at = 0\<rparr>)],
         websocket_to_player := [(10, 1)]\<rparr>"
  let ?session = "\<lparr>player_id = 1, websocket = 10, connected_at = 0, last_input_at = 0\<rparr>"
  let ?m = "[(''type'', JStr ''mouse''), (''action'', JStr ''press'')]"
  have m: "dict_get ?m ''type'' (JStr []) = JStr ''mouse''"
    "snd (dispatch 1 (JObj ?m) 5 ?s) = None" "get_session ?s 1 = Some ?session"
    by (simp_all add: dict_get_def dispatch_def mouse_message_def
        get_mouse_keyboard_controller_def get_session_def world0_def fresh_def)
  have 1: "get_session (process_message 1 (Parsed (JObj ?m)) 5 ?s) 1 =
      Some (?session\<lparr>last_input_at := 5\<rparr>)"
    using activity_timestamp [of ?m ?s 1 5 ?session] m by blast
  have "dict_get [(''type'', JStr ''ping'')] ''type'' (JStr []) = JStr ''ping''"
    by (simp add: dict_get_def)
  then have 2: "sessions (process_message 1 (Parsed (JObj [(''type'', JStr ''ping'')])) 5 ?s) =
      sessions ?s"
    using activity_timestamp [of "[(''type'', JStr ''ping'')]" ?s 1 5] by blast
  have "dict_get [(''type'', JStr ''jump'')] ''type'' (JStr []) \<notin>
      {JStr ''input'', JStr ''mouse'', JStr ''keyboard'', JStr ''ping'', JStr ''disconnect''}"
    by (simp add: dict_get_def)
  then have 3: "process_message 1 (Parsed (JObj [(''type'', JStr ''jump'')])) 5 world0 = world0"
    using activity_timestamp [of "[(''type'', JStr ''jump'')]" world0 1 5] by blast
  have "snd (dispatch 1 (JArr []) 5 ?s) \<noteq> None" by (simp add: dispatch_def)
  then have 4: "sessions (process_message 1 (Parsed (JArr [])) 5 ?s) = sessions ?s"
    using activity_timestamp [of _ ?s 1 5 _ "JArr []"] by blast
  from 1 2 3 4 show ?thesis by simp
qed

text \<open>
  C5 as stated fails for \<open>ping\<close> and \<open>disconnect\<close>: a \<open>ping\<close> at time 5 is answered
  with \<open>pong\<close> and raises nothing, and the session still has the timestamp 0; the same
  for \<open>disconnect\<close>.
\<close>

theorem ping_leaves_timestamp_counterexample:
  "get_session (process_message 1 (Parsed (JObj [(''type'', JStr ''ping'')])) 5
      (world0\<lparr>sessions :=
         [(1, \<lparr>player_id = 1, websocket = 10, connected_at = 0, last_input_at = 0\<rparr>)],
         websocket_to_player := [(10, 1)]\<rparr>)) 1 =
     Some \<lparr>player_id = 1, websocket = 10, connected_at = 0, last_input_at = 0\<rparr> \<and>
   wire (network (process_message 1 (Parsed (JObj [(''type'', JStr ''ping'')])) 5
      (world0\<lparr>sessions :=
         [(1, \<lparr>player_id = 1, websocket = 10, connected_at = 0, last_input_at = 0\<rparr>)],
         websocket_to_player := [(10, 1)]\<rparr>))) = [Sent 10 Msg_pong] \<and>
   snd (dispatch 1 (JObj [(''type'', JStr ''ping'')]) 5
      (world0\<lparr>sessions :=
         [(1, \<lparr>player_id = 1, websocket = 10, connected_at = 0, last_input_at = 0\<rparr>)],
         websocket_to_player := [(10, 1)]\<rparr>)) = None \<and>
   get_session (process_message 1 (Parsed (JObj [(''type'', JStr ''disconnect'')])) 5
      (world0\<lparr>sessions :=
         [(1, \<lparr>player_id = 1, websocket = 10, connected_at = 0, last_input_at = 0\<rparr>)],
         websocket_to_player := [(10, 1)]\<rparr>)) 1 =
     Some \<lparr>player_id = 1, websocket = 10, connected_at = 0, last_input_at = 0\<rparr>"
  by (simp add: process_message_def dispatch_def ping_message_def disconnect_message_def
      dict_get_def get_session_def send_def close_def world0_def fresh_def)

end
